theory Spec2Isabelle
  imports Complex_Main
begin

section \<open>Numbers, vectors and matrices\<close>

text \<open>
  The program computes with C++ \<open>float\<close> values. They are idealised here as real numbers:
  rounding, infinities and NaN are outside the model, so every statement below about a
  computed number is a statement about the exact value of the formula the code evaluates.
  Where HOL totalises an operation (\<open>1 / 0 = 0\<close>, \<open>log 10 x\<close> for \<open>x \<le> 0\<close>) the model says
  nothing about what the hardware would produce; no theorem below relies on such a value.

  The vector and matrix types and the functions on them belong to the glm library. A
  \<open>mat4\<close> is stored by columns, as in glm.
\<close>

datatype vec3 = Vec3 real real real

datatype vec4 = Vec4 real real real real

datatype mat4 = Mat4 vec4 vec4 vec4 vec4

fun vec3_uniform :: "real \<Rightarrow> vec3" where
  "vec3_uniform x = Vec3 x x x"

fun vec3_smul :: "real \<Rightarrow> vec3 \<Rightarrow> vec3" where
  "vec3_smul k (Vec3 x y z) = Vec3 (k * x) (k * y) (k * z)"

fun vec3_dot :: "vec3 \<Rightarrow> vec3 \<Rightarrow> real" where
  "vec3_dot (Vec3 a b c) (Vec3 x y z) = a * x + b * y + c * z"

definition vec3_length :: "vec3 \<Rightarrow> real" where
  "vec3_length v = sqrt (vec3_dot v v)"

definition vec3_normalize :: "vec3 \<Rightarrow> vec3" where
  "vec3_normalize v = vec3_smul (1 / sqrt (vec3_dot v v)) v"

fun vec4_of_vec3 :: "vec3 \<Rightarrow> real \<Rightarrow> vec4" where
  "vec4_of_vec3 (Vec3 x y z) w = Vec4 x y z w"

fun vec3_of_vec4 :: "vec4 \<Rightarrow> vec3" where
  "vec3_of_vec4 (Vec4 x y z w) = Vec3 x y z"

fun vec4_add :: "vec4 \<Rightarrow> vec4 \<Rightarrow> vec4" where
  "vec4_add (Vec4 a b c d) (Vec4 x y z w) = Vec4 (a + x) (b + y) (c + z) (d + w)"

fun vec4_smul :: "vec4 \<Rightarrow> real \<Rightarrow> vec4" where
  "vec4_smul (Vec4 x y z w) k = Vec4 (x * k) (y * k) (z * k) (w * k)"

definition mat4_identity :: mat4 where
  "mat4_identity = Mat4 (Vec4 1 0 0 0) (Vec4 0 1 0 0) (Vec4 0 0 1 0) (Vec4 0 0 0 1)"

fun mat4_mul_vec4 :: "mat4 \<Rightarrow> vec4 \<Rightarrow> vec4" where
  "mat4_mul_vec4 (Mat4 c0 c1 c2 c3) (Vec4 x y z w) =
     vec4_add (vec4_add (vec4_add (vec4_smul c0 x) (vec4_smul c1 y)) (vec4_smul c2 z))
       (vec4_smul c3 w)"

fun mat4_mul :: "mat4 \<Rightarrow> mat4 \<Rightarrow> mat4" where
  "mat4_mul m (Mat4 c0 c1 c2 c3) =
     Mat4 (mat4_mul_vec4 m c0) (mat4_mul_vec4 m c1) (mat4_mul_vec4 m c2) (mat4_mul_vec4 m c3)"

text \<open>\<open>glm::scale(v)\<close> of \<open>glm/gtx/transform.hpp\<close>: the identity with its first three
  columns scaled.\<close>

fun glm_scale :: "vec3 \<Rightarrow> mat4" where
  "glm_scale (Vec3 x y z) = Mat4 (Vec4 x 0 0 0) (Vec4 0 y 0 0) (Vec4 0 0 z 0) (Vec4 0 0 0 1)"

text \<open>\<open>glm::radians\<close> and \<open>glm::rotate(m, angle, v)\<close>, the latter with the entries of
  glm's rotation matrix about the normalised axis.\<close>

definition glm_radians :: "real \<Rightarrow> real" where
  "glm_radians degrees = degrees * (pi / 180)"

fun rotate_cols :: "mat4 \<Rightarrow> real \<Rightarrow> real \<Rightarrow> vec3 \<Rightarrow> mat4" where
  "rotate_cols (Mat4 m0 m1 m2 m3) c s (Vec3 ax ay az) =
     (let tx = (1 - c) * ax; ty = (1 - c) * ay; tz = (1 - c) * az;
          r00 = c + tx * ax; r01 = tx * ay + s * az; r02 = tx * az - s * ay;
          r10 = ty * ax - s * az; r11 = c + ty * ay; r12 = ty * az + s * ax;
          r20 = tz * ax + s * ay; r21 = tz * ay - s * ax; r22 = c + tz * az
      in Mat4 (vec4_add (vec4_add (vec4_smul m0 r00) (vec4_smul m1 r01)) (vec4_smul m2 r02))
              (vec4_add (vec4_add (vec4_smul m0 r10) (vec4_smul m1 r11)) (vec4_smul m2 r12))
              (vec4_add (vec4_add (vec4_smul m0 r20) (vec4_smul m1 r21)) (vec4_smul m2 r22))
              m3)"

definition glm_rotate :: "mat4 \<Rightarrow> real \<Rightarrow> vec3 \<Rightarrow> mat4" where
  "glm_rotate m angle v = rotate_cols m (cos angle) (sin angle) (vec3_normalize v)"

section \<open>The catalog\<close>

record SolarSystemPlanet =
  texture_fname :: string
  diameter :: real
  rotational_velocity :: real
  orbital_radius :: real
  orbital_period :: real
  orbital_inclination :: real

definition Sun :: SolarSystemPlanet where
  "Sun = \<lparr>texture_fname = ''resources/images/sun.jpeg'', diameter = 1392684,
     rotational_velocity = 0, orbital_radius = 0, orbital_period = 0,
     orbital_inclination = 0\<rparr>"

definition Moon :: SolarSystemPlanet where
  "Moon = \<lparr>texture_fname = ''resources/images/moon.jpeg'', diameter = 3475,
     rotational_velocity = 16.7, orbital_radius = 0.384, orbital_period = 27.3,
     orbital_inclination = 5.1\<rparr>"

definition Mercury :: SolarSystemPlanet where
  "Mercury = \<lparr>texture_fname = ''resources/images/mercury.jpeg'', diameter = 4879,
     rotational_velocity = 10.83, orbital_radius = 57.9, orbital_period = 88,
     orbital_inclination = 7.0\<rparr>"

definition Venus :: SolarSystemPlanet where
  "Venus = \<lparr>texture_fname = ''resources/images/venus.jpeg'', diameter = 12104,
     rotational_velocity = 6.52, orbital_radius = 108.2, orbital_period = 224.7,
     orbital_inclination = 3.4\<rparr>"

definition Earth :: SolarSystemPlanet where
  "Earth = \<lparr>texture_fname = ''resources/images/earth.jpeg'', diameter = 12756,
     rotational_velocity = 1574, orbital_radius = 149.6, orbital_period = 365.2,
     orbital_inclination = 0\<rparr>"

definition Mars :: SolarSystemPlanet where
  "Mars = \<lparr>texture_fname = ''resources/images/mars.jpeg'', diameter = 6792,
     rotational_velocity = 866, orbital_radius = 228, orbital_period = 687,
     orbital_inclination = 1.8\<rparr>"

definition Jupiter :: SolarSystemPlanet where
  "Jupiter = \<lparr>texture_fname = ''resources/images/jupiter.jpeg'', diameter = 142984,
     rotational_velocity = 45583, orbital_radius = 778.5, orbital_period = 4331,
     orbital_inclination = 1.3\<rparr>"

definition Saturn :: SolarSystemPlanet where
  "Saturn = \<lparr>texture_fname = ''resources/images/saturn.jpeg'', diameter = 120536,
     rotational_velocity = 36840, orbital_radius = 1432, orbital_period = 10747,
     orbital_inclination = 2.5\<rparr>"

definition Uranus :: SolarSystemPlanet where
  "Uranus = \<lparr>texture_fname = ''resources/images/uranus.jpeg'', diameter = 51118,
     rotational_velocity = 14798, orbital_radius = 2867, orbital_period = 30589,
     orbital_inclination = 0.8\<rparr>"

definition Neptune :: SolarSystemPlanet where
  "Neptune = \<lparr>texture_fname = ''resources/images/neptune.jpeg'', diameter = 49528,
     rotational_velocity = 9719, orbital_radius = 4515, orbital_period = 59800,
     orbital_inclination = 1.8\<rparr>"

definition Planets :: "SolarSystemPlanet list" where
  "Planets = [Mercury, Venus, Earth, Mars, Jupiter, Saturn, Uranus, Neptune]"

text \<open>
  \<open>Sun\<close>, \<open>Moon\<close> and \<open>Planets\<close> are mutable globals of the translation unit; the build
  reads them when it runs. The model passes them in as a \<open>catalog\<close>, and \<open>solar_catalog\<close>
  holds the values the source initialises them with.
\<close>

record catalog =
  cat_Sun :: SolarSystemPlanet
  cat_Planets :: "SolarSystemPlanet list"
  cat_Moon :: SolarSystemPlanet

definition solar_catalog :: catalog where
  "solar_catalog = \<lparr>cat_Sun = Sun, cat_Planets = Planets, cat_Moon = Moon\<rparr>"

section \<open>Scaling functions and the rotation axis\<close>

definition scaleDiameter :: "real \<Rightarrow> real" where
  "scaleDiameter d = (log 10 d - 3) * 0.5"

definition scaleOrbitalRadius :: "real \<Rightarrow> real" where
  "scaleOrbitalRadius radius = (log 10 radius - 1.2) * 7"

definition scaleVelocity :: "real \<Rightarrow> real" where
  "scaleVelocity v = sqrt v * 10"

definition DEFAULT_AXIS :: vec3 where
  "DEFAULT_AXIS = Vec3 0 1 0"

definition computeAxis :: "real \<Rightarrow> vec3" where
  "computeAxis inclination =
     (if inclination = 0 then DEFAULT_AXIS
      else vec3_of_vec4
        (mat4_mul_vec4 (glm_rotate mat4_identity (glm_radians inclination) (Vec3 1 0 0))
           (vec4_of_vec3 DEFAULT_AXIS 0)))"

section \<open>Render payloads\<close>

text \<open>
  The declarations of \<open>PrimitiveType\<close>, \<open>SceneMaterial\<close> and \<open>RenderShapeData\<close> are not
  in the source file. They are modelled from their use in \<open>generateSolarSystem\<close>: the fields
  the function assigns, and the aggregate \<open>{{type, material}, ctm}\<close> it builds. The only
  enumerator the source names is \<open>PRIMITIVE_SPHERE\<close>; the others are collapsed into
  \<open>PRIMITIVE_OTHER\<close>.
\<close>

datatype PrimitiveType = PRIMITIVE_SPHERE | PRIMITIVE_OTHER

record SceneFileMap =
  isUsed :: bool
  filename :: string
  repeatU :: real
  repeatV :: real

record SceneMaterial =
  cDiffuse :: vec4
  blend :: real
  textureMap :: SceneFileMap

record ScenePrimitive =
  prim_type :: PrimitiveType
  prim_material :: SceneMaterial

record RenderShapeData =
  primitive :: ScenePrimitive
  ctm :: mat4

definition set_filename :: "string \<Rightarrow> SceneMaterial \<Rightarrow> SceneMaterial" where
  "set_filename f mat = mat\<lparr>textureMap := (textureMap mat)\<lparr>filename := f\<rparr>\<rparr>"

definition sphere_shape :: "SceneMaterial \<Rightarrow> RenderShapeData" where
  "sphere_shape mat =
     \<lparr>primitive = \<lparr>prim_type = PRIMITIVE_SPHERE, prim_material = mat\<rparr>, ctm = mat4_identity\<rparr>"

section \<open>Scene-graph nodes and the heap\<close>

type_synonym addr = nat

text \<open>
  Modelled from the spec: the class \<open>Planet\<close> (its declaration, constructor, accessors and
  \<open>updateCTM\<close> are not in the source file). The fields are the spec's SceneGraphNode: the
  seven constructor arguments in the order the source passes them (scale, orbital rate,
  spin rate, phase, orbit radius, axis, render payload), the parent back-reference, the
  children, and the spin angle that the per-frame update advances. A node is constructed
  with no parent, no children and spin angle 0.
\<close>

record Planet =
  scale :: real
  orbitalRate :: real
  selfSpinRate :: real
  phase :: real
  orbitRadius :: real
  axis :: vec3
  renderHandle :: addr
  parent :: "addr option"
  children :: "addr list"
  spinAngle :: real

text \<open>
  The program state: the live \<open>Planet\<close> and \<open>RenderShapeData\<close> objects by address, one
  allocation counter for each kind (an address is never handed out twice), the member
  \<open>m_root\<close> of the one \<open>PlanetarySystem\<close>, and the log of the nodes that \<open>delete\<close> has
  released, in order.
\<close>

record state =
  planet_heap :: "addr \<rightharpoonup> Planet"
  planet_next :: addr
  shape_heap :: "addr \<rightharpoonup> RenderShapeData"
  shape_next :: addr
  m_root :: "addr option"
  released :: "addr list"

text \<open>A \<open>PlanetarySystem\<close> on which nothing has been called yet: nothing allocated, the
  root null.\<close>

definition initial_state :: state where
  "initial_state = \<lparr>planet_heap = Map.empty, planet_next = 0, shape_heap = Map.empty,
     shape_next = 0, m_root = None, released = []\<rparr>"

text \<open>What is undefined behaviour in C++ is an error value of the model; \<open>OutOfFuel\<close> is
  the model's own, for the recursions over the heap.\<close>

datatype error = NullPointer | DanglingPointer | IndexOutOfRange | DoubleFree | OutOfFuel

definition new_RenderShapeData :: "RenderShapeData \<Rightarrow> state \<Rightarrow> addr \<times> state" where
  "new_RenderShapeData d s =
     (shape_next s,
      s\<lparr>shape_heap := (shape_heap s)(shape_next s \<mapsto> d), shape_next := Suc (shape_next s)\<rparr>)"

text \<open>
  Modelled from the spec: the constructor of \<open>Planet\<close> (\<open>Planet_init\<close>, allocated by
  \<open>new_Planet\<close>) and its setters \<open>setParent\<close> and \<open>setChildren\<close>, which store their
  argument in the node they are called on.
\<close>

definition Planet_init ::
  "real \<Rightarrow> real \<Rightarrow> real \<Rightarrow> real \<Rightarrow> real \<Rightarrow> vec3 \<Rightarrow> addr \<Rightarrow> Planet" where
  "Planet_init sc orate srate ph orad ax shape =
     \<lparr>scale = sc, orbitalRate = orate, selfSpinRate = srate, phase = ph, orbitRadius = orad,
      axis = ax, renderHandle = shape, parent = None, children = [], spinAngle = 0\<rparr>"

definition new_Planet :: "Planet \<Rightarrow> state \<Rightarrow> addr \<times> state" where
  "new_Planet pl s =
     (planet_next s,
      s\<lparr>planet_heap := (planet_heap s)(planet_next s \<mapsto> pl),
        planet_next := Suc (planet_next s)\<rparr>)"

definition setParent :: "addr \<Rightarrow> addr \<Rightarrow> state \<Rightarrow> error + state" where
  "setParent p q s =
     (case planet_heap s p of
        None \<Rightarrow> Inl DanglingPointer
      | Some pl \<Rightarrow> Inr (s\<lparr>planet_heap := (planet_heap s)(p \<mapsto> pl\<lparr>parent := Some q\<rparr>)\<rparr>))"

definition setChildren :: "addr \<Rightarrow> addr list \<Rightarrow> state \<Rightarrow> error + state" where
  "setChildren p cs s =
     (case planet_heap s p of
        None \<Rightarrow> Inl DanglingPointer
      | Some pl \<Rightarrow> Inr (s\<lparr>planet_heap := (planet_heap s)(p \<mapsto> pl\<lparr>children := cs\<rparr>)\<rparr>))"

section \<open>The random source\<close>

text \<open>
  \<open>std::mt19937\<close> seeded from \<open>std::random_device\<close>, read through
  \<open>std::uniform_real_distribution<float> dist(0, 2\<pi>)\<close>: the model takes the sequence of values
  the distribution will yield as an input, and a draw \<open>dist(mt)\<close>, here \<open>dist_mt\<close>, returns
  its head and the rest.
\<close>

type_synonym rng = "nat \<Rightarrow> real"

definition dist_mt :: "rng \<Rightarrow> real \<times> rng" where
  "dist_mt mt = (mt 0, \<lambda>n. mt (Suc n))"

section \<open>Building the tree\<close>

text \<open>The locals of \<open>generateSolarSystem\<close> that the loop over \<open>Planets\<close> changes.\<close>

record locals =
  l_data :: "addr list"
  l_mat :: SceneMaterial
  l_mt :: rng
  l_sun_children :: "addr list"

definition add_planet :: "addr \<Rightarrow> SolarSystemPlanet \<Rightarrow> locals \<Rightarrow> state \<Rightarrow> error + locals \<times> state" where
  "add_planet sun planet l s =
     (let mat = set_filename (texture_fname planet) (l_mat l);
          (p_shape, s1) = new_RenderShapeData (sphere_shape mat) s;
          (ph, mt') = dist_mt (l_mt l);
          (p, s2) = new_Planet
             (Planet_init (scaleDiameter (diameter planet))
                (scaleVelocity (1 / orbital_period planet))
                (rotational_velocity planet / diameter planet)
                ph
                (scaleOrbitalRadius (orbital_radius planet))
                (computeAxis (orbital_inclination planet))
                p_shape) s1
      in case setParent p sun s2 of
           Inl e \<Rightarrow> Inl e
         | Inr s3 \<Rightarrow>
             Inr (l\<lparr>l_data := l_data l @ [p_shape], l_mat := mat, l_mt := mt',
                    l_sun_children := l_sun_children l @ [p]\<rparr>, s3))"

fun add_planets :: "addr \<Rightarrow> SolarSystemPlanet list \<Rightarrow> locals \<Rightarrow> state \<Rightarrow> error + locals \<times> state" where
  "add_planets sun [] l s = Inr (l, s)"
| "add_planets sun (planet # rest) l s =
     (case add_planet sun planet l s of
        Inl e \<Rightarrow> Inl e
      | Inr (l', s') \<Rightarrow> add_planets sun rest l' s')"

definition initial_mat :: SceneMaterial where
  "initial_mat = \<lparr>cDiffuse = Vec4 1 1 1 0, blend = 1,
     textureMap = \<lparr>isUsed = True, filename = [], repeatU = 1, repeatV = 1\<rparr>\<rparr>"

definition generateSolarSystem :: "catalog \<Rightarrow> rng \<Rightarrow> state \<Rightarrow> error + addr list \<times> state" where
  "generateSolarSystem cat mt s =
     (let mat = set_filename (texture_fname (cat_Sun cat)) initial_mat;
          (sun_shape, s1) = new_RenderShapeData (sphere_shape mat) s;
          (sun, s2) = new_Planet
             (Planet_init (scaleDiameter (diameter (cat_Sun cat))) 0 0 0 0 (Vec3 0 1 0) sun_shape) s1;
          l = \<lparr>l_data = [sun_shape], l_mat = mat\<lparr>blend := 0.5\<rparr>, l_mt = mt,
               l_sun_children = []\<rparr>
      in case add_planets sun (cat_Planets cat) l s2 of
           Inl e \<Rightarrow> Inl e
         | Inr (l', s3) \<Rightarrow>
             (let mat' = set_filename (texture_fname (cat_Moon cat)) (l_mat l');
                  (moon_shape, s4) = new_RenderShapeData (sphere_shape mat') s3;
                  (ph, mt') = dist_mt (l_mt l');
                  (moon, s5) = new_Planet
                     (Planet_init (diameter (cat_Moon cat) / 20000)
                        (scaleVelocity (1 / orbital_period (cat_Moon cat)))
                        (rotational_velocity (cat_Moon cat) / diameter (cat_Moon cat))
                        ph
                        (orbital_radius (cat_Moon cat) * 1.5)
                        (computeAxis (orbital_inclination (cat_Moon cat)))
                        moon_shape) s4;
                  data = l_data l' @ [moon_shape];
                  sun_children = l_sun_children l'
              in if length sun_children \<le> 2 then Inl IndexOutOfRange
                 else
                   (case setParent moon (sun_children ! 2) s5 of
                      Inl e \<Rightarrow> Inl e
                    | Inr s6 \<Rightarrow>
                        (case setChildren (sun_children ! 2) [moon] s6 of
                           Inl e \<Rightarrow> Inl e
                         | Inr s7 \<Rightarrow>
                             (case setChildren sun sun_children s7 of
                                Inl e \<Rightarrow> Inl e
                              | Inr s8 \<Rightarrow> Inr (data, s8\<lparr>m_root := Some sun\<rparr>))))))"

section \<open>The per-frame update\<close>

text \<open>
  Modelled from the spec: \<open>Planet::updateCTM\<close>, which is not in the source file. For each
  node, in pre-order, the phase advances by orbital rate times \<open>deltaTime\<close> and the spin
  angle by spin rate times \<open>deltaTime\<close>, with no wrapping; the transforms are derived from
  the node's fields and are not part of the state. The recursion over the heap takes fuel.
\<close>

definition advance_node :: "real \<Rightarrow> Planet \<Rightarrow> Planet" where
  "advance_node deltaTime pl =
     pl\<lparr>phase := phase pl + orbitalRate pl * deltaTime,
        spinAngle := spinAngle pl + selfSpinRate pl * deltaTime\<rparr>"

fun updateCTM :: "nat \<Rightarrow> real \<Rightarrow> state \<Rightarrow> addr \<Rightarrow> error + state"
  and updateCTM_children :: "nat \<Rightarrow> real \<Rightarrow> state \<Rightarrow> addr list \<Rightarrow> error + state" where
  "updateCTM 0 deltaTime s p = Inl OutOfFuel"
| "updateCTM (Suc k) deltaTime s p =
     (case planet_heap s p of
        None \<Rightarrow> Inl DanglingPointer
      | Some pl \<Rightarrow>
          updateCTM_children k deltaTime
            (s\<lparr>planet_heap := (planet_heap s)(p \<mapsto> advance_node deltaTime pl)\<rparr>)
            (children pl))"
| "updateCTM_children k deltaTime s [] = Inr s"
| "updateCTM_children k deltaTime s (c # cs) =
     (case updateCTM k deltaTime s c of
        Inl e \<Rightarrow> Inl e
      | Inr s' \<Rightarrow> updateCTM_children k deltaTime s' cs)"

definition update :: "nat \<Rightarrow> real \<Rightarrow> state \<Rightarrow> error + state" where
  "update fuel deltaTime s =
     (case m_root s of
        None \<Rightarrow> Inl NullPointer
      | Some r \<Rightarrow> updateCTM fuel deltaTime s r)"

section \<open>Orbit rings\<close>

text \<open>
  \<open>getTranslateMat\<close> and \<open>getOrientMat\<close> are accessors of the absent class \<open>Planet\<close>; the
  traversal takes them as parameters \<open>gT\<close> and \<open>gO\<close>, functions of the node they are
  called on.
\<close>

definition orbit_ctm :: "(Planet \<Rightarrow> mat4) \<Rightarrow> (Planet \<Rightarrow> mat4) \<Rightarrow> Planet \<Rightarrow> Planet \<Rightarrow> mat4" where
  "orbit_ctm gT gO par p =
     mat4_mul
       (mat4_mul (mat4_mul (gT par) (glm_scale (vec3_uniform (2 * orbitRadius p)))) (gO p))
       mat4_identity"

fun getOrbitCtmsHelper ::
    "(Planet \<Rightarrow> mat4) \<Rightarrow> (Planet \<Rightarrow> mat4) \<Rightarrow> nat \<Rightarrow> state \<Rightarrow> mat4 list \<Rightarrow> addr \<Rightarrow> error + mat4 list"
  and getOrbitCtmsChildren ::
    "(Planet \<Rightarrow> mat4) \<Rightarrow> (Planet \<Rightarrow> mat4) \<Rightarrow> nat \<Rightarrow> state \<Rightarrow> mat4 list \<Rightarrow> addr list \<Rightarrow> error + mat4 list"
  where
  "getOrbitCtmsHelper gT gO 0 s ctms p = Inl OutOfFuel"
| "getOrbitCtmsHelper gT gO (Suc k) s ctms p =
     (case planet_heap s p of
        None \<Rightarrow> Inl DanglingPointer
      | Some pl \<Rightarrow>
          (case parent pl of
             None \<Rightarrow> getOrbitCtmsChildren gT gO k s ctms (children pl)
           | Some q \<Rightarrow>
               (case planet_heap s q of
                  None \<Rightarrow> Inl DanglingPointer
                | Some par \<Rightarrow>
                    getOrbitCtmsChildren gT gO k s (ctms @ [orbit_ctm gT gO par pl])
                      (children pl))))"
| "getOrbitCtmsChildren gT gO k s ctms [] = Inr ctms"
| "getOrbitCtmsChildren gT gO k s ctms (c # cs) =
     (case getOrbitCtmsHelper gT gO k s ctms c of
        Inl e \<Rightarrow> Inl e
      | Inr ctms' \<Rightarrow> getOrbitCtmsChildren gT gO k s ctms' cs)"

definition getOrbitCtms ::
  "(Planet \<Rightarrow> mat4) \<Rightarrow> (Planet \<Rightarrow> mat4) \<Rightarrow> nat \<Rightarrow> state \<Rightarrow> error + mat4 list" where
  "getOrbitCtms gT gO fuel s =
     (case m_root s of
        None \<Rightarrow> Inl NullPointer
      | Some r \<Rightarrow> getOrbitCtmsHelper gT gO fuel s [] r)"

section \<open>Teardown\<close>

text \<open>
  Modelled from the spec: the destructor of \<open>Planet\<close>, which \<open>delete curr\<close> runs and which
  is not in the source file. It releases nothing itself (section 4.6: the children are
  released by the recursion of \<open>deletePlanet\<close>, the render payloads are not released
  here). So \<open>delete curr\<close> takes the object out of the heap and appends its address to the
  log; releasing an object that is not live is an error.
\<close>

definition delete_Planet :: "addr \<Rightarrow> state \<Rightarrow> error + state" where
  "delete_Planet cur s =
     (case planet_heap s cur of
        None \<Rightarrow> Inl DoubleFree
      | Some pl \<Rightarrow>
          Inr (s\<lparr>planet_heap := (planet_heap s)(cur := None), released := released s @ [cur]\<rparr>))"

fun deletePlanet :: "nat \<Rightarrow> state \<Rightarrow> addr \<Rightarrow> error + state"
  and deletePlanet_children :: "nat \<Rightarrow> state \<Rightarrow> addr list \<Rightarrow> error + state" where
  "deletePlanet 0 s cur = Inl OutOfFuel"
| "deletePlanet (Suc k) s cur =
     (case planet_heap s cur of
        None \<Rightarrow> Inl DanglingPointer
      | Some pl \<Rightarrow>
          (case deletePlanet_children k s (children pl) of
             Inl e \<Rightarrow> Inl e
           | Inr s' \<Rightarrow> delete_Planet cur s'))"
| "deletePlanet_children k s [] = Inr s"
| "deletePlanet_children k s (p # ps) =
     (case deletePlanet k s p of
        Inl e \<Rightarrow> Inl e
      | Inr s' \<Rightarrow> deletePlanet_children k s' ps)"

definition PlanetarySystem_destructor :: "nat \<Rightarrow> state \<Rightarrow> error + state" where
  "PlanetarySystem_destructor fuel s =
     (case m_root s of
        None \<Rightarrow> Inr s
      | Some r \<Rightarrow> deletePlanet fuel s r)"

section \<open>The result of the build, in closed form\<close>

text \<open>
  The definitions of this section are not translated from the source: they describe the
  state that \<open>generateSolarSystem\<close> is proved to return (lemma
  \<open>generateSolarSystem_result\<close>), and the proofs go through them. With \<open>n\<close> and \<open>m\<close> the
  allocation counters before the build and \<open>C\<close> the number of orbiting bodies, the sun is
  the node \<open>n\<close>, the orbiting bodies are \<open>n + 1, \<dots>, n + C\<close>, the moon is \<open>n + C + 1\<close>, and
  the payloads are \<open>m, \<dots>, m + C + 1\<close> in the same order.
\<close>

definition planet_node :: "addr \<Rightarrow> real \<Rightarrow> addr \<Rightarrow> SolarSystemPlanet \<Rightarrow> Planet" where
  "planet_node sun ph shape planet =
     (Planet_init (scaleDiameter (diameter planet))
                (scaleVelocity (1 / orbital_period planet))
                (rotational_velocity planet / diameter planet)
                ph
                (scaleOrbitalRadius (orbital_radius planet))
                (computeAxis (orbital_inclination planet))
                shape)\<lparr>parent := Some sun\<rparr>"

definition sun_node :: "catalog \<Rightarrow> addr \<Rightarrow> addr \<Rightarrow> Planet" where
  "sun_node cat n m =
     (Planet_init (scaleDiameter (diameter (cat_Sun cat))) 0 0 0 0 (Vec3 0 1 0) m)
       \<lparr>children := [Suc n ..< Suc n + length (cat_Planets cat)]\<rparr>"

definition moon_node :: "catalog \<Rightarrow> rng \<Rightarrow> addr \<Rightarrow> addr \<Rightarrow> Planet" where
  "moon_node cat mt n m =
     (Planet_init (diameter (cat_Moon cat) / 20000)
        (scaleVelocity (1 / orbital_period (cat_Moon cat)))
        (rotational_velocity (cat_Moon cat) / diameter (cat_Moon cat))
        (mt (length (cat_Planets cat)))
        (orbital_radius (cat_Moon cat) * 1.5)
        (computeAxis (orbital_inclination (cat_Moon cat)))
        (Suc m + length (cat_Planets cat)))\<lparr>parent := Some (n + 3)\<rparr>"

definition built_planets :: "catalog \<Rightarrow> rng \<Rightarrow> addr \<Rightarrow> addr \<Rightarrow> (addr \<rightharpoonup> Planet) \<Rightarrow> (addr \<rightharpoonup> Planet)" where
  "built_planets cat mt n m h =
     (\<lambda>a. if a = n then Some (sun_node cat n m)
          else if Suc n \<le> a \<and> a < Suc n + length (cat_Planets cat)
          then Some ((planet_node n (mt (a - Suc n)) (Suc m + (a - Suc n))
                        (cat_Planets cat ! (a - Suc n)))
                       \<lparr>children := (if a = n + 3 then [Suc n + length (cat_Planets cat)] else [])\<rparr>)
          else if a = Suc n + length (cat_Planets cat) then Some (moon_node cat mt n m)
          else h a)"

definition planet_mat :: "string \<Rightarrow> SceneMaterial" where
  "planet_mat f = set_filename f (initial_mat\<lparr>blend := 0.5\<rparr>)"

definition built_shapes :: "catalog \<Rightarrow> addr \<Rightarrow> (addr \<rightharpoonup> RenderShapeData) \<Rightarrow> (addr \<rightharpoonup> RenderShapeData)" where
  "built_shapes cat m h =
     (\<lambda>a. if a = m then Some (sphere_shape (set_filename (texture_fname (cat_Sun cat)) initial_mat))
          else if Suc m \<le> a \<and> a < Suc m + length (cat_Planets cat)
          then Some (sphere_shape (planet_mat (texture_fname (cat_Planets cat ! (a - Suc m)))))
          else if a = Suc m + length (cat_Planets cat)
          then Some (sphere_shape (planet_mat (texture_fname (cat_Moon cat))))
          else h a)"

definition built_state :: "catalog \<Rightarrow> rng \<Rightarrow> state \<Rightarrow> state" where
  "built_state cat mt s =
     s\<lparr>planet_heap := built_planets cat mt (planet_next s) (shape_next s) (planet_heap s),
       planet_next := planet_next s + length (cat_Planets cat) + 2,
       shape_heap := built_shapes cat (shape_next s) (shape_heap s),
       shape_next := shape_next s + length (cat_Planets cat) + 2,
       m_root := Some (planet_next s)\<rparr>"

section \<open>What the claims speak of\<close>

text \<open>
  The definitions of this section and the next are not translated from the source. Those
  of this section state the notions the properties are about.

  \<open>pre_order\<close> lists the nodes reachable from a node through the children lists: the node
  first, then the subtree of each child in order, each subtree complete before the next
  sibling. Like the traversals of the source it follows pointers through the heap, so it
  takes fuel.
\<close>

fun pre_order :: "nat \<Rightarrow> state \<Rightarrow> addr \<Rightarrow> error + addr list"
  and pre_order_children :: "nat \<Rightarrow> state \<Rightarrow> addr list \<Rightarrow> error + addr list" where
  "pre_order 0 s p = Inl OutOfFuel"
| "pre_order (Suc k) s p =
     (case planet_heap s p of
        None \<Rightarrow> Inl DanglingPointer
      | Some pl \<Rightarrow>
          (case pre_order_children k s (children pl) of
             Inl e \<Rightarrow> Inl e
           | Inr ns \<Rightarrow> Inr (p # ns)))"
| "pre_order_children k s [] = Inr []"
| "pre_order_children k s (c # cs) =
     (case pre_order k s c of
        Inl e \<Rightarrow> Inl e
      | Inr ns \<Rightarrow>
          (case pre_order_children k s cs of
             Inl e \<Rightarrow> Inl e
           | Inr ms \<Rightarrow> Inr (ns @ ms)))"

text \<open>
  \<open>is_ring gT gO s m a\<close>: \<open>m\<close> is the ring of the node \<open>a\<close>, the translation of its parent
  composed with the uniform scale by twice its orbit radius and with its orientation.
\<close>

definition is_ring :: "(Planet \<Rightarrow> mat4) \<Rightarrow> (Planet \<Rightarrow> mat4) \<Rightarrow> state \<Rightarrow> mat4 \<Rightarrow> addr \<Rightarrow> bool" where
  "is_ring gT gO s m a \<longleftrightarrow>
     (\<exists>pl q par. planet_heap s a = Some pl \<and> parent pl = Some q \<and> planet_heap s q = Some par \<and>
        m = mat4_mul (mat4_mul (gT par) (glm_scale (vec3_uniform (2 * orbitRadius pl)))) (gO pl))"

text \<open>
  After construction the per-frame update changes phases and spin angles and nothing else.
  \<open>same_structure s s2\<close>: \<open>s2\<close> has the root of \<open>s\<close> and, at every address, a node with the
  children and the parent that \<open>s\<close> has there (or none where \<open>s\<close> has none); the other
  fields are free.
\<close>

definition same_structure :: "state \<Rightarrow> state \<Rightarrow> bool" where
  "same_structure s s2 \<longleftrightarrow>
     m_root s2 = m_root s \<and>
     (\<forall>a. map_option children (planet_heap s2 a) = map_option children (planet_heap s a) \<and>
          map_option parent (planet_heap s2 a) = map_option parent (planet_heap s a))"

text \<open>The states a built tree reaches: \<open>update\<close> called once per frame, with the
  frames' \<open>deltaTime\<close>s in a list.\<close>

fun updates :: "nat \<Rightarrow> real list \<Rightarrow> state \<Rightarrow> error + state" where
  "updates fuel [] s = Inr s"
| "updates fuel (d # ds) s =
     (case update fuel d s of
        Inl e \<Rightarrow> Inl e
      | Inr s' \<Rightarrow> updates fuel ds s')"

text \<open>\<open>released_before c a rlog\<close>: in the log of released nodes, \<open>a\<close> comes after the
  first occurrence of \<open>c\<close>.\<close>

definition released_before :: "addr \<Rightarrow> addr \<Rightarrow> addr list \<Rightarrow> bool" where
  "released_before c a rlog \<longleftrightarrow> a \<in> set (tl (dropWhile (\<lambda>x. x \<noteq> c) rlog))"

text \<open>A catalog of three orbiting bodies: the first with diameter 0, the second with a
  negative orbital radius, the third with orbital period 0.\<close>

definition malformed_catalog :: catalog where
  "malformed_catalog =
     \<lparr>cat_Sun = Sun,
      cat_Planets = [Mercury\<lparr>diameter := 0\<rparr>, Venus\<lparr>orbital_radius := - 1\<rparr>,
                     Earth\<lparr>orbital_period := 0\<rparr>],
      cat_Moon = Moon\<rparr>"

section \<open>The shape of the built tree, for the proofs\<close>

text \<open>
  The shape every built tree has: a root \<open>r\<close> without parent whose children are the leaves
  \<open>L\<close>, then \<open>e\<close>, then the leaves \<open>R\<close>; \<open>e\<close> has the single child \<open>mo\<close>, a leaf; all nodes
  are different and every node but the root points back to its parent. The traversals of
  the source are computed once for this shape, and the build is shown to produce it.
\<close>

definition leaf_under :: "state \<Rightarrow> addr \<Rightarrow> addr \<Rightarrow> bool" where
  "leaf_under s q c \<longleftrightarrow>
     (\<exists>pl. planet_heap s c = Some pl \<and> children pl = [] \<and> parent pl = Some q)"

definition system_shape :: "state \<Rightarrow> addr \<Rightarrow> addr list \<Rightarrow> addr \<Rightarrow> addr \<Rightarrow> addr list \<Rightarrow> bool" where
  "system_shape s r L e mo R \<longleftrightarrow>
     distinct (r # L @ e # mo # R) \<and>
     (\<exists>pl. planet_heap s r = Some pl \<and> children pl = L @ e # R \<and> parent pl = None) \<and>
     (\<forall>c \<in> set (L @ R). leaf_under s r c) \<and>
     (\<exists>pl. planet_heap s e = Some pl \<and> children pl = [mo] \<and> parent pl = Some r) \<and>
     leaf_under s e mo"

text \<open>The matrix \<open>getOrbitCtmsHelper\<close> appends for a node with a parent.\<close>

definition ring_of :: "(Planet \<Rightarrow> mat4) \<Rightarrow> (Planet \<Rightarrow> mat4) \<Rightarrow> state \<Rightarrow> addr \<Rightarrow> mat4" where
  "ring_of gT gO s a =
     orbit_ctm gT gO (the (planet_heap s (the (parent (the (planet_heap s a))))))
       (the (planet_heap s a))"

text \<open>The state after every node of a list has been advanced by \<open>dt\<close>, and the state
  after the nodes of a list have been released in that order.\<close>

definition advance_all :: "real \<Rightarrow> addr list \<Rightarrow> state \<Rightarrow> state" where
  "advance_all dt as s =
     s\<lparr>planet_heap := (\<lambda>a. if a \<in> set as then map_option (advance_node dt) (planet_heap s a)
                            else planet_heap s a)\<rparr>"

definition release_all :: "addr list \<Rightarrow> state \<Rightarrow> state" where
  "release_all as s =
     s\<lparr>planet_heap := (\<lambda>a. if a \<in> set as then None else planet_heap s a),
       released := released s @ as\<rparr>"

text \<open>The root has orbit radius 0; every node of the list has a positive orbit radius, a
  phase that is not negative and an orbital rate that is not negative.\<close>

definition orbits_ok :: "state \<Rightarrow> addr \<Rightarrow> addr list \<Rightarrow> bool" where
  "orbits_ok s r nodes \<longleftrightarrow>
     (\<exists>rl. planet_heap s r = Some rl \<and> orbitRadius rl = 0) \<and>
     (\<forall>a \<in> set nodes. \<exists>pl. planet_heap s a = Some pl \<and>
        0 < orbitRadius pl \<and> 0 \<le> phase pl \<and> 0 \<le> orbitalRate pl)"

section \<open>Properties\<close>

subsection \<open>Scaling and the rotation axis\<close>

lemma computeAxis_nonzero:
  "inclination \<noteq> 0 \<Longrightarrow>
   computeAxis inclination =
     Vec3 0 (cos (glm_radians inclination)) (sin (glm_radians inclination))"
  by (simp add: computeAxis_def glm_rotate_def vec3_normalize_def mat4_identity_def
      DEFAULT_AXIS_def Let_def)

lemma log10_1000: "log 10 1000 = (3::real)"
proof -
  have "log 10 ((10::real) ^ 3) = 3" by (subst log_pow_cancel) simp_all
  then show ?thesis by simp
qed

text \<open>
  Claim C6. \<open>computeAxis 0\<close> is exactly the vertical axis \<open>(0, 1, 0)\<close>: the test is an
  equality with the literal 0 and no rotation is computed. For every other inclination the
  result is the vertical axis turned about the X axis by the inclination in radians, that
  is \<open>(0, cos \<theta>, sin \<theta>)\<close> with \<open>\<theta> = inclination \<cdot> \<pi> / 180\<close>. The result has length 1
  (exactly, over the reals).
\<close>

theorem computeAxis_spec:
  "computeAxis 0 = Vec3 0 1 0 \<and>
   (inclination \<noteq> 0 \<longrightarrow>
      computeAxis inclination =
        Vec3 0 (cos (inclination * (pi / 180))) (sin (inclination * (pi / 180)))) \<and>
   vec3_length (computeAxis inclination) = 1"
proof (intro conjI impI)
  show "computeAxis 0 = Vec3 0 1 0"
    by (simp add: computeAxis_def DEFAULT_AXIS_def)
next
  assume "inclination \<noteq> 0"
  then show "computeAxis inclination =
        Vec3 0 (cos (inclination * (pi / 180))) (sin (inclination * (pi / 180)))"
    by (simp add: computeAxis_nonzero glm_radians_def)
next
  show "vec3_length (computeAxis inclination) = 1"
  proof (cases "inclination = 0")
    case True
    then show ?thesis by (simp add: computeAxis_def DEFAULT_AXIS_def vec3_length_def)
  next
    case False
    have "(cos (glm_radians inclination))\<^sup>2 + (sin (glm_radians inclination))\<^sup>2 = 1"
      by (simp add: add.commute)
    then show ?thesis
      using False by (simp add: computeAxis_nonzero vec3_length_def power2_eq_square)
  qed
qed

theorem computeAxis_spec_witness:
  "(90::real) \<noteq> 0 \<and> computeAxis 90 = Vec3 0 0 1 \<and> vec3_length (computeAxis 90) = 1"
  using computeAxis_spec [of 90] by (simp add: vec3_length_def)

subsection \<open>The build in closed form\<close>

lemma set_filename_twice [simp]: "set_filename f (set_filename g m) = set_filename f m"
  by (simp add: set_filename_def)

lemma add_planet_result:
  "add_planet sun planet l s =
     Inr (l\<lparr>l_data := l_data l @ [shape_next s],
            l_mat := set_filename (texture_fname planet) (l_mat l),
            l_mt := (\<lambda>n. l_mt l (Suc n)),
            l_sun_children := l_sun_children l @ [planet_next s]\<rparr>,
          s\<lparr>planet_heap := (planet_heap s)(planet_next s \<mapsto>
                 planet_node sun (l_mt l 0) (shape_next s) planet),
            planet_next := Suc (planet_next s),
            shape_heap := (shape_heap s)(shape_next s \<mapsto>
                 sphere_shape (set_filename (texture_fname planet) (l_mat l))),
            shape_next := Suc (shape_next s)\<rparr>)"
  by (simp add: add_planet_def Let_def new_RenderShapeData_def new_Planet_def dist_mt_def
      setParent_def planet_node_def)

lemma add_planets_result:
  "\<exists>l' s'. add_planets sun ps l s = Inr (l', s') \<and>
     l_data l' = l_data l @ [shape_next s ..< shape_next s + length ps] \<and>
     l_sun_children l' = l_sun_children l @ [planet_next s ..< planet_next s + length ps] \<and>
     l_mt l' = (\<lambda>j. l_mt l (j + length ps)) \<and>
     l_mat l' = (if ps = [] then l_mat l else set_filename (texture_fname (last ps)) (l_mat l)) \<and>
     planet_next s' = planet_next s + length ps \<and>
     shape_next s' = shape_next s + length ps \<and>
     m_root s' = m_root s \<and> released s' = released s \<and>
     planet_heap s' = (\<lambda>a. if planet_next s \<le> a \<and> a < planet_next s + length ps
        then Some (planet_node sun (l_mt l (a - planet_next s)) (shape_next s + (a - planet_next s))
                     (ps ! (a - planet_next s)))
        else planet_heap s a) \<and>
     shape_heap s' = (\<lambda>a. if shape_next s \<le> a \<and> a < shape_next s + length ps
        then Some (sphere_shape (set_filename (texture_fname (ps ! (a - shape_next s))) (l_mat l)))
        else shape_heap s a)"
proof (induction ps arbitrary: l s)
  case Nil
  show ?case by (auto simp: fun_eq_iff)
next
  case (Cons p ps)
  let ?l1 = "l\<lparr>l_data := l_data l @ [shape_next s],
            l_mat := set_filename (texture_fname p) (l_mat l),
            l_mt := (\<lambda>n. l_mt l (Suc n)),
            l_sun_children := l_sun_children l @ [planet_next s]\<rparr>"
  let ?s1 = "s\<lparr>planet_heap := (planet_heap s)(planet_next s \<mapsto>
                 planet_node sun (l_mt l 0) (shape_next s) p),
            planet_next := Suc (planet_next s),
            shape_heap := (shape_heap s)(shape_next s \<mapsto>
                 sphere_shape (set_filename (texture_fname p) (l_mat l))),
            shape_next := Suc (shape_next s)\<rparr>"
  from Cons.IH [of ?l1 ?s1] obtain l' s' where
    run: "add_planets sun ps ?l1 ?s1 = Inr (l', s')" and
    d: "l_data l' = l_data ?l1 @ [shape_next ?s1 ..< shape_next ?s1 + length ps]" and
    c: "l_sun_children l' = l_sun_children ?l1 @ [planet_next ?s1 ..< planet_next ?s1 + length ps]" and
    r: "l_mt l' = (\<lambda>j. l_mt ?l1 (j + length ps))" and
    m: "l_mat l' = (if ps = [] then l_mat ?l1 else set_filename (texture_fname (last ps)) (l_mat ?l1))" and
    pn: "planet_next s' = planet_next ?s1 + length ps" and
    sn: "shape_next s' = shape_next ?s1 + length ps" and
    rt: "m_root s' = m_root ?s1" "released s' = released ?s1" and
    ph: "planet_heap s' = (\<lambda>a. if planet_next ?s1 \<le> a \<and> a < planet_next ?s1 + length ps
        then Some (planet_node sun (l_mt ?l1 (a - planet_next ?s1)) (shape_next ?s1 + (a - planet_next ?s1))
                     (ps ! (a - planet_next ?s1)))
        else planet_heap ?s1 a)" and
    sh: "shape_heap s' = (\<lambda>a. if shape_next ?s1 \<le> a \<and> a < shape_next ?s1 + length ps
        then Some (sphere_shape (set_filename (texture_fname (ps ! (a - shape_next ?s1))) (l_mat ?l1)))
        else shape_heap ?s1 a)"
    by blast
  have run': "add_planets sun (p # ps) l s = Inr (l', s')"
    using run by (simp add: add_planet_result)
  have d': "l_data l' = l_data l @ [shape_next s ..< shape_next s + length (p # ps)]"
    using d by (simp add: upt_rec)
  have c': "l_sun_children l' = l_sun_children l @ [planet_next s ..< planet_next s + length (p # ps)]"
    using c by (simp add: upt_rec)
  have r': "l_mt l' = (\<lambda>j. l_mt l (j + length (p # ps)))"
    using r by simp
  have m': "l_mat l' = (if p # ps = [] then l_mat l else set_filename (texture_fname (last (p # ps))) (l_mat l))"
    using m by simp
  have ph': "planet_heap s' = (\<lambda>a. if planet_next s \<le> a \<and> a < planet_next s + length (p # ps)
        then Some (planet_node sun (l_mt l (a - planet_next s)) (shape_next s + (a - planet_next s))
                     ((p # ps) ! (a - planet_next s)))
        else planet_heap s a)"
    unfolding ph by (rule ext) (auto simp: nth_Cons' Suc_diff_Suc)
  have sh': "shape_heap s' = (\<lambda>a. if shape_next s \<le> a \<and> a < shape_next s + length (p # ps)
        then Some (sphere_shape (set_filename (texture_fname ((p # ps) ! (a - shape_next s))) (l_mat l)))
        else shape_heap s a)"
    unfolding sh by (rule ext) (auto simp: nth_Cons')
  show ?case
    using run' d' c' r' m' pn sn rt ph' sh' by (intro exI conjI) simp_all
qed

lemma set_filename_blend:
  "set_filename f ((set_filename g m)\<lparr>blend := b\<rparr>) = set_filename f (m\<lparr>blend := b\<rparr>)"
  by (simp add: set_filename_def)

lemma generateSolarSystem_short:
  assumes "length (cat_Planets cat) \<le> 2"
  shows "generateSolarSystem cat mt s = Inl IndexOutOfRange"
proof -
  let ?mat = "set_filename (texture_fname (cat_Sun cat)) initial_mat"
  let ?s2 = "s\<lparr>shape_heap := (shape_heap s)(shape_next s \<mapsto> sphere_shape ?mat),
       shape_next := Suc (shape_next s),
       planet_heap := (planet_heap s)(planet_next s \<mapsto>
         Planet_init (scaleDiameter (diameter (cat_Sun cat))) 0 0 0 0 (Vec3 0 1 0) (shape_next s)),
       planet_next := Suc (planet_next s)\<rparr>"
  let ?l = "\<lparr>l_data = [shape_next s], l_mat = ?mat\<lparr>blend := 0.5\<rparr>, l_mt = mt,
               l_sun_children = []\<rparr>"
  from add_planets_result [of "planet_next s" "cat_Planets cat" ?l ?s2]
  obtain l' s3 where run: "add_planets (planet_next s) (cat_Planets cat) ?l ?s2 = Inr (l', s3)"
    and c: "l_sun_children l' = l_sun_children ?l @ [planet_next ?s2 ..< planet_next ?s2 + length (cat_Planets cat)]"
    by blast
  have len: "length (l_sun_children l') = length (cat_Planets cat)"
    unfolding c by (simp del: upt_Suc)
  show ?thesis
    using assms run len
    by (simp add: generateSolarSystem_def Let_def new_RenderShapeData_def new_Planet_def
        dist_mt_def)
qed

lemma generateSolarSystem_result:
  assumes long: "2 < length (cat_Planets cat)"
  shows "generateSolarSystem cat mt s =
     Inr ([shape_next s ..< shape_next s + length (cat_Planets cat) + 2], built_state cat mt s)"
proof -
  let ?ps = "cat_Planets cat"
  let ?n = "planet_next s"
  let ?m = "shape_next s"
  let ?mat = "set_filename (texture_fname (cat_Sun cat)) initial_mat"
  let ?s2 = "s\<lparr>shape_heap := (shape_heap s)(shape_next s \<mapsto> sphere_shape ?mat),
       shape_next := Suc (shape_next s),
       planet_heap := (planet_heap s)(planet_next s \<mapsto>
         Planet_init (scaleDiameter (diameter (cat_Sun cat))) 0 0 0 0 (Vec3 0 1 0) (shape_next s)),
       planet_next := Suc (planet_next s)\<rparr>"
  let ?l = "\<lparr>l_data = [shape_next s], l_mat = ?mat\<lparr>blend := 0.5\<rparr>, l_mt = mt,
               l_sun_children = []\<rparr>"
  from add_planets_result [of "planet_next s" "cat_Planets cat" ?l ?s2]
  obtain l' s3 where run: "add_planets ?n ?ps ?l ?s2 = Inr (l', s3)"
    and d0: "l_data l' = l_data ?l @ [shape_next ?s2 ..< shape_next ?s2 + length ?ps]"
    and c0: "l_sun_children l' = l_sun_children ?l @ [planet_next ?s2 ..< planet_next ?s2 + length ?ps]"
    and r0: "l_mt l' = (\<lambda>j. l_mt ?l (j + length ?ps))"
    and m: "l_mat l' = (if ?ps = [] then l_mat ?l else set_filename (texture_fname (last ?ps)) (l_mat ?l))"
    and pn0: "planet_next s3 = planet_next ?s2 + length ?ps"
    and sn0: "shape_next s3 = shape_next ?s2 + length ?ps"
    and rt0: "m_root s3 = m_root ?s2" "released s3 = released ?s2"
    and ph0: "planet_heap s3 = (\<lambda>a. if planet_next ?s2 \<le> a \<and> a < planet_next ?s2 + length ?ps
        then Some (planet_node ?n (l_mt ?l (a - planet_next ?s2)) (shape_next ?s2 + (a - planet_next ?s2))
                     (?ps ! (a - planet_next ?s2)))
        else planet_heap ?s2 a)"
    and sh0: "shape_heap s3 = (\<lambda>a. if shape_next ?s2 \<le> a \<and> a < shape_next ?s2 + length ?ps
        then Some (sphere_shape (set_filename (texture_fname (?ps ! (a - shape_next ?s2))) (l_mat ?l)))
        else shape_heap ?s2 a)"
    by blast
  have d: "l_data l' = [?m ..< Suc ?m + length ?ps]"
    unfolding d0 by (simp del: upt_Suc add: upt_rec [of "shape_next s"])
  have c: "l_sun_children l' = [Suc ?n ..< Suc ?n + length ?ps]"
    unfolding c0 by (simp del: upt_Suc)
  have r: "l_mt l' = (\<lambda>j. mt (j + length ?ps))"
    unfolding r0 by simp
  have pn: "planet_next s3 = Suc ?n + length ?ps" and sn: "shape_next s3 = Suc ?m + length ?ps"
    and rt: "m_root s3 = m_root s" "released s3 = released s"
    using pn0 sn0 rt0 by simp_all
  have ph: "planet_heap s3 = (\<lambda>a. if Suc ?n \<le> a \<and> a < Suc ?n + length ?ps
        then Some (planet_node ?n (mt (a - Suc ?n)) (Suc ?m + (a - Suc ?n)) (?ps ! (a - Suc ?n)))
        else planet_heap ?s2 a)"
    unfolding ph0 by (simp cong: if_cong)
  have sh: "shape_heap s3 = (\<lambda>a. if Suc ?m \<le> a \<and> a < Suc ?m + length ?ps
        then Some (sphere_shape (set_filename (texture_fname (?ps ! (a - Suc ?m))) (l_mat ?l)))
        else shape_heap ?s2 a)"
    unfolding sh0 by (simp cong: if_cong)
  have mat': "set_filename (texture_fname (cat_Moon cat)) (l_mat l') = planet_mat (texture_fname (cat_Moon cat))"
    using m by (simp add: planet_mat_def set_filename_blend)
  have third: "[Suc ?n ..< Suc ?n + length ?ps] ! 2 = ?n + 3"
    using long by (simp del: upt_Suc)
  have len: "length [Suc ?n ..< Suc ?n + length ?ps] = length ?ps"
    by (simp del: upt_Suc)
  let ?moon = "Suc ?n + length ?ps"
  have data: "[?m ..< Suc ?m + length ?ps] @ [Suc (?m + length ?ps)] = [?m ..< ?m + length ?ps + 2]"
    by (simp del: upt_Suc add: upt_Suc_append)
  show ?thesis
    using long run
    apply (simp del: upt_Suc add: generateSolarSystem_def Let_def new_RenderShapeData_def new_Planet_def
        dist_mt_def setParent_def setChildren_def d c r mat' pn sn ph third len)
    apply (rule conjI)
     apply (simp del: upt_Suc add: upt_Suc_append)
    apply (rule state.equality)
          apply (simp_all add: built_state_def rt pn sn)
     apply (rule ext)
     apply (auto simp: built_planets_def moon_node_def sun_node_def planet_node_def Planet_init_def)[1]
    apply (rule ext)
    apply (auto simp: sh built_shapes_def planet_mat_def set_filename_blend)
    done
qed

lemma built_root: "m_root (built_state cat mt s) = Some (planet_next s)"
  by (simp add: built_state_def)

lemma built_sun:
  "planet_heap (built_state cat mt s) (planet_next s) = Some (sun_node cat (planet_next s) (shape_next s))"
  by (simp add: built_state_def built_planets_def)

lemma built_planet:
  "i < length (cat_Planets cat) \<Longrightarrow>
   planet_heap (built_state cat mt s) (Suc (planet_next s + i)) =
     Some ((planet_node (planet_next s) (mt i) (Suc (shape_next s + i)) (cat_Planets cat ! i))
             \<lparr>children := (if i = 2 then [Suc (planet_next s + length (cat_Planets cat))] else [])\<rparr>)"
  by (simp add: built_state_def built_planets_def)

lemma built_moon:
  "planet_heap (built_state cat mt s) (Suc (planet_next s + length (cat_Planets cat))) =
     Some (moon_node cat mt (planet_next s) (shape_next s))"
  by (simp add: built_state_def built_planets_def)

lemma built_shape_sun:
  "shape_heap (built_state cat mt s) (shape_next s) =
     Some (sphere_shape (set_filename (texture_fname (cat_Sun cat)) initial_mat))"
  by (simp add: built_state_def built_shapes_def)

lemma built_shape_planet:
  "i < length (cat_Planets cat) \<Longrightarrow>
   shape_heap (built_state cat mt s) (Suc (shape_next s + i)) =
     Some (sphere_shape (planet_mat (texture_fname (cat_Planets cat ! i))))"
  by (simp add: built_state_def built_shapes_def)

lemma built_shape_moon:
  "shape_heap (built_state cat mt s) (Suc (shape_next s + length (cat_Planets cat))) =
     Some (sphere_shape (planet_mat (texture_fname (cat_Moon cat))))"
  by (simp add: built_state_def built_shapes_def)

lemma sun_children_nth:
  "i < c \<Longrightarrow> [Suc n ..< Suc n + c] ! i = Suc (n + i)"
  by (simp del: upt_Suc)

lemma sun_children_split:
  assumes "2 < c"
  shows "[Suc n ..< Suc n + c] = [Suc n, Suc (Suc n)] @ (n + 3) # [n + 4 ..< Suc n + c]"
  using assms by (simp del: upt_Suc add: upt_conv_Cons eval_nat_numeral)

lemma built_shape:
  assumes "2 < length (cat_Planets cat)"
  shows "system_shape (built_state cat mt s) (planet_next s)
           [Suc (planet_next s), Suc (Suc (planet_next s))] (planet_next s + 3)
           (Suc (planet_next s + length (cat_Planets cat)))
           [planet_next s + 4 ..< Suc (planet_next s) + length (cat_Planets cat)]"
proof -
  let ?n = "planet_next s" and ?C = "length (cat_Planets cat)"
  let ?s' = "built_state cat mt s"
  have leaf: "leaf_under ?s' ?n (Suc (?n + i))" if "i < ?C" "i \<noteq> 2" for i
    using that built_planet [of i cat mt s]
    by (simp add: leaf_under_def planet_node_def Planet_init_def)
  have root: "\<exists>pl. planet_heap ?s' ?n = Some pl \<and>
      children pl = [Suc ?n, Suc (Suc ?n)] @ (?n + 3) # [?n + 4 ..< Suc ?n + ?C] \<and> parent pl = None"
    using built_sun [of cat mt s] sun_children_split [OF assms, of ?n]
    by (simp del: upt_Suc add: sun_node_def Planet_init_def)
  have earth: "\<exists>pl. planet_heap ?s' (?n + 3) = Some pl \<and>
      children pl = [Suc (?n + ?C)] \<and> parent pl = Some ?n"
    using built_planet [of 2 cat mt s] assms
    by (simp add: planet_node_def Planet_init_def eval_nat_numeral)
  have moon: "leaf_under ?s' (?n + 3) (Suc (?n + ?C))"
    using built_moon [of cat mt s] by (simp add: leaf_under_def moon_node_def Planet_init_def)
  have leaves: "\<forall>c \<in> set ([Suc ?n, Suc (Suc ?n)] @ [?n + 4 ..< Suc ?n + ?C]). leaf_under ?s' ?n c"
  proof
    fix c assume "c \<in> set ([Suc ?n, Suc (Suc ?n)] @ [?n + 4 ..< Suc ?n + ?C])"
    then have "Suc ?n \<le> c \<and> c < Suc ?n + ?C \<and> c \<noteq> ?n + 3"
      using assms by auto
    then have "c - Suc ?n < ?C" "c - Suc ?n \<noteq> 2" "c = Suc (?n + (c - Suc ?n))" by auto
    with leaf [of "c - Suc ?n"] show "leaf_under ?s' ?n c" by simp
  qed
  have dist: "distinct (?n # [Suc ?n, Suc (Suc ?n)] @ (?n + 3) # Suc (?n + ?C) # [?n + 4 ..< Suc ?n + ?C])"
    using assms by auto
  show ?thesis
    unfolding system_shape_def using dist root leaves earth moon by (simp del: upt_Suc)
qed

lemma system_shapeD:
  assumes "system_shape s r L e mo R"
  shows "distinct (r # L @ e # mo # R)"
    and "\<exists>pl. planet_heap s r = Some pl \<and> children pl = L @ e # R \<and> parent pl = None"
    and "\<forall>c \<in> set L. leaf_under s r c"
    and "\<forall>c \<in> set R. leaf_under s r c"
    and "\<exists>pl. planet_heap s e = Some pl \<and> children pl = [mo] \<and> parent pl = Some r"
    and "leaf_under s e mo"
  using assms unfolding system_shape_def by auto

lemma built_nodes_cases:
  assumes "2 < c"
    and "a \<in> set ([Suc n, Suc (Suc n)] @ (n + 3) # Suc (n + c) # [n + 4 ..< Suc n + c])"
  shows "(\<exists>i < c. a = Suc (n + i)) \<or> a = Suc (n + c)"
proof -
  from assms have "(Suc n \<le> a \<and> a < Suc n + c) \<or> a = Suc (n + c)" by auto
  then show ?thesis
  proof
    assume "Suc n \<le> a \<and> a < Suc n + c"
    then have "a - Suc n < c" "a = Suc (n + (a - Suc n))" by auto
    then show ?thesis by blast
  next
    assume "a = Suc (n + c)" then show ?thesis by simp
  qed
qed

lemma fuel3: "3 \<le> fuel \<Longrightarrow> \<exists>k. fuel = Suc (Suc (Suc k))"
  by (metis add_2_eq_Suc' le_Suc_ex numeral_3_eq_3 add_Suc)

subsection \<open>Malformed records\<close>

text \<open>
  Claim C1, as the code has it. The build validates no record. For every catalog with at
  least three orbiting bodies, whatever the diameters, orbital radii and orbital periods,
  it builds the tree, sets the root and returns one payload per body, and reports no
  error. The one failure is the host index: with fewer than three orbiting bodies the
  source reads \<open>sun_children[2]\<close> out of range, which the model reports as
  \<open>IndexOutOfRange\<close>.
\<close>

theorem build_validates_nothing:
  "(2 < length (cat_Planets cat) \<longrightarrow>
      (\<exists>data s'. generateSolarSystem cat mt s = Inr (data, s') \<and>
         m_root s' = Some (planet_next s) \<and> length data = length (cat_Planets cat) + 2)) \<and>
   (length (cat_Planets cat) \<le> 2 \<longrightarrow> generateSolarSystem cat mt s = Inl IndexOutOfRange)"
proof (intro conjI impI)
  assume long: "2 < length (cat_Planets cat)"
  have "length [shape_next s ..< shape_next s + length (cat_Planets cat) + 2] =
      length (cat_Planets cat) + 2"
    by (simp del: upt_Suc)
  then show "\<exists>data s'. generateSolarSystem cat mt s = Inr (data, s') \<and>
         m_root s' = Some (planet_next s) \<and> length data = length (cat_Planets cat) + 2"
    using generateSolarSystem_result [OF long, of mt s] built_root [of cat mt s] by blast
next
  assume "length (cat_Planets cat) \<le> 2"
  then show "generateSolarSystem cat mt s = Inl IndexOutOfRange"
    by (rule generateSolarSystem_short)
qed

theorem build_validates_nothing_witness:
  "2 < length (cat_Planets malformed_catalog) \<and>
   (\<exists>data s'. generateSolarSystem malformed_catalog (\<lambda>n. 0) initial_state = Inr (data, s') \<and>
      m_root s' = Some (planet_next initial_state) \<and>
      length data = length (cat_Planets malformed_catalog) + 2) \<and>
   length (cat_Planets (solar_catalog\<lparr>cat_Planets := [Mercury, Venus]\<rparr>)) \<le> 2 \<and>
   generateSolarSystem (solar_catalog\<lparr>cat_Planets := [Mercury, Venus]\<rparr>) (\<lambda>n. 0) initial_state
     = Inl IndexOutOfRange"
proof -
  have long: "2 < length (cat_Planets malformed_catalog)"
    by (simp add: malformed_catalog_def)
  have short: "length (cat_Planets (solar_catalog\<lparr>cat_Planets := [Mercury, Venus]\<rparr>)) \<le> 2"
    by simp
  from build_validates_nothing [of malformed_catalog "\<lambda>n. 0" initial_state] long
  have a: "\<exists>data s'. generateSolarSystem malformed_catalog (\<lambda>n. 0) initial_state = Inr (data, s') \<and>
      m_root s' = Some (planet_next initial_state) \<and>
      length data = length (cat_Planets malformed_catalog) + 2"
    by blast
  from build_validates_nothing
    [of "solar_catalog\<lparr>cat_Planets := [Mercury, Venus]\<rparr>" "\<lambda>n. 0" initial_state] short
  have b: "generateSolarSystem (solar_catalog\<lparr>cat_Planets := [Mercury, Venus]\<rparr>) (\<lambda>n. 0)
      initial_state = Inl IndexOutOfRange"
    by blast
  show ?thesis
    by (intro conjI long a short b)
qed

text \<open>
  Claim C1 as stated fails. On \<open>malformed_catalog\<close>, whose three records have diameter 0,
  orbital radius \<open>-1\<close> and orbital period 0, the build reports nothing: it returns the five
  payloads and a state whose root is the node 0 with the children 1, 2 and 3, the first of
  them with the scale the formula gives for diameter 0.
\<close>

theorem malformed_catalog_counterexample:
  "diameter (cat_Planets malformed_catalog ! 0) \<le> 0 \<and>
   orbital_radius (cat_Planets malformed_catalog ! 1) \<le> 0 \<and>
   orbital_period (cat_Planets malformed_catalog ! 2) \<le> 0 \<and>
   generateSolarSystem malformed_catalog (\<lambda>n. 0) initial_state =
     Inr ([0..<5], built_state malformed_catalog (\<lambda>n. 0) initial_state) \<and>
   m_root (built_state malformed_catalog (\<lambda>n. 0) initial_state) = Some 0 \<and>
   map_option children (planet_heap (built_state malformed_catalog (\<lambda>n. 0) initial_state) 0)
     = Some [1, 2, 3] \<and>
   map_option scale (planet_heap (built_state malformed_catalog (\<lambda>n. 0) initial_state) 1)
     = Some (scaleDiameter 0)"
proof -
  let ?s0 = "built_state malformed_catalog (\<lambda>n. 0) initial_state"
  have three: "length (cat_Planets malformed_catalog) = 3"
    by (simp add: malformed_catalog_def)
  have len: "2 < length (cat_Planets malformed_catalog)" unfolding three by simp
  have init: "planet_next initial_state = 0" "shape_next initial_state = 0"
    by (simp_all add: initial_state_def)
  have bad: "diameter (cat_Planets malformed_catalog ! 0) \<le> 0"
    "orbital_radius (cat_Planets malformed_catalog ! 1) \<le> 0"
    "orbital_period (cat_Planets malformed_catalog ! 2) \<le> 0"
    by (simp_all add: malformed_catalog_def)
  have gen: "generateSolarSystem malformed_catalog (\<lambda>n. 0) initial_state = Inr ([0..<5], ?s0)"
    using generateSolarSystem_result [OF len, of "\<lambda>n. 0" initial_state]
    unfolding three init by simp
  have root: "m_root ?s0 = Some 0"
    using built_root [of malformed_catalog "\<lambda>n. 0" initial_state] unfolding init .
  have kids: "map_option children (planet_heap ?s0 0) = Some [1, 2, 3]"
    using built_sun [of malformed_catalog "\<lambda>n. 0" initial_state]
    unfolding init by (simp del: upt_Suc add: sun_node_def three upt_conv_Cons)
  have first: "planet_heap ?s0 (Suc 0) =
      Some ((planet_node 0 0 1 (cat_Planets malformed_catalog ! 0))\<lparr>children := []\<rparr>)"
    using built_planet [of 0 malformed_catalog "\<lambda>n. 0" initial_state]
    unfolding three init by simp
  have sc: "map_option scale (planet_heap ?s0 1) = Some (scaleDiameter 0)"
    using first by (simp add: planet_node_def Planet_init_def malformed_catalog_def)
  show ?thesis
    by (intro conjI bad gen root kids sc)
qed

subsection \<open>The parameters of an orbiting body's node\<close>

text \<open>
  Claim C5. After the build, the \<open>i\<close>-th child of the root is the node of the \<open>i\<close>-th
  orbiting-body record, with scale \<open>(log10 diameter - 3) \<cdot> 0.5\<close>, spin rate
  \<open>rotationalVelocity / diameter\<close>, orbital rate \<open>sqrt (1 / orbitalPeriod) \<cdot> 10\<close>, orbit
  radius \<open>(log10 orbitalRadius - 1.2) \<cdot> 7\<close> and axis \<open>computeAxis inclination\<close>; and
  \<open>scaleDiameter 1000 = 0\<close>. The build returns when the catalog has a third orbiting
  body for the moon to be attached to.
\<close>

theorem planet_node_parameters:
  assumes "2 < length (cat_Planets cat)" and "i < length (cat_Planets cat)"
  shows "\<exists>data s' sun root pl.
     generateSolarSystem cat mt s = Inr (data, s') \<and>
     m_root s' = Some sun \<and> planet_heap s' sun = Some root \<and>
     length (children root) = length (cat_Planets cat) \<and>
     planet_heap s' (children root ! i) = Some pl \<and>
     scale pl = (log 10 (diameter (cat_Planets cat ! i)) - 3) * 0.5 \<and>
     selfSpinRate pl = rotational_velocity (cat_Planets cat ! i) / diameter (cat_Planets cat ! i) \<and>
     orbitalRate pl = sqrt (1 / orbital_period (cat_Planets cat ! i)) * 10 \<and>
     orbitRadius pl = (log 10 (orbital_radius (cat_Planets cat ! i)) - 1.2) * 7 \<and>
     axis pl = computeAxis (orbital_inclination (cat_Planets cat ! i)) \<and>
     scaleDiameter 1000 = 0"
proof -
  let ?s' = "built_state cat mt s"
  let ?pl = "(planet_node (planet_next s) (mt i) (Suc (shape_next s + i)) (cat_Planets cat ! i))
             \<lparr>children := (if i = 2 then [Suc (planet_next s + length (cat_Planets cat))] else [])\<rparr>"
  have child: "children (sun_node cat (planet_next s) (shape_next s)) ! i = Suc (planet_next s + i)"
    using assms(2) by (simp del: upt_Suc add: sun_node_def)
  have len: "length (children (sun_node cat (planet_next s) (shape_next s))) = length (cat_Planets cat)"
    by (simp del: upt_Suc add: sun_node_def)
  have node: "planet_heap ?s' (children (sun_node cat (planet_next s) (shape_next s)) ! i) = Some ?pl"
    unfolding child using assms(2) by (rule built_planet)
  have fields: "scale ?pl = (log 10 (diameter (cat_Planets cat ! i)) - 3) * 0.5"
    "selfSpinRate ?pl = rotational_velocity (cat_Planets cat ! i) / diameter (cat_Planets cat ! i)"
    "orbitalRate ?pl = sqrt (1 / orbital_period (cat_Planets cat ! i)) * 10"
    "orbitRadius ?pl = (log 10 (orbital_radius (cat_Planets cat ! i)) - 1.2) * 7"
    "axis ?pl = computeAxis (orbital_inclination (cat_Planets cat ! i))"
    by (simp_all add: planet_node_def Planet_init_def scaleDiameter_def scaleVelocity_def
        scaleOrbitalRadius_def)
  have k: "scaleDiameter 1000 = 0"
    by (simp add: scaleDiameter_def log10_1000)
  show ?thesis
    using generateSolarSystem_result [OF assms(1), of mt s] built_root [of cat mt s]
      built_sun [of cat mt s] len node fields k
    by blast
qed

theorem planet_node_parameters_witness:
  "2 < length (cat_Planets solar_catalog) \<and>
   (\<exists>data s' sun root pl.
     generateSolarSystem solar_catalog (\<lambda>n. 0) initial_state = Inr (data, s') \<and>
     m_root s' = Some sun \<and> planet_heap s' sun = Some root \<and>
     planet_heap s' (children root ! 2) = Some pl \<and>
     scale pl = (log 10 12756 - 3) * 0.5 \<and>
     selfSpinRate pl = 1574 / 12756 \<and>
     orbitalRate pl = sqrt (1 / 365.2) * 10 \<and>
     orbitRadius pl = (log 10 149.6 - 1.2) * 7 \<and>
     axis pl = Vec3 0 1 0)"
proof -
  have len: "2 < length (cat_Planets solar_catalog)"
    by (simp add: solar_catalog_def Planets_def)
  have earth: "cat_Planets solar_catalog ! 2 = Earth"
    by (simp add: solar_catalog_def Planets_def)
  from planet_node_parameters [OF len len, of "\<lambda>n. 0" initial_state]
  show ?thesis
    using len unfolding earth
    by (simp add: Earth_def computeAxis_def DEFAULT_AXIS_def) blast
qed

subsection \<open>The shape of the built tree\<close>

lemma pre_order_leaf:
  "leaf_under s q c \<Longrightarrow> pre_order (Suc k) s c = Inr [c]"
  by (auto simp: leaf_under_def)

lemma pre_order_leaves:
  "\<forall>c \<in> set cs. leaf_under s q c \<Longrightarrow> pre_order_children (Suc k) s cs = Inr cs"
  by (induction cs) (auto simp: leaf_under_def)

lemma pre_order_children_append:
  "pre_order_children k s xs = Inr ns \<Longrightarrow> pre_order_children k s ys = Inr ms \<Longrightarrow>
   pre_order_children k s (xs @ ys) = Inr (ns @ ms)"
  by (induction xs arbitrary: ns) (auto split: sum.splits)

lemma pre_order_shape:
  assumes "system_shape s r L e mo R"
  shows "pre_order (Suc (Suc (Suc k))) s r = Inr (r # L @ e # mo # R)"
proof -
  note sh = system_shapeD [OF assms]
  from sh(2) obtain rl where rl: "planet_heap s r = Some rl" "children rl = L @ e # R" by blast
  from sh(5) obtain el where el: "planet_heap s e = Some el" "children el = [mo]" by blast
  have m: "pre_order (Suc k) s mo = Inr [mo]" using sh(6) by (rule pre_order_leaf)
  have e: "pre_order (Suc (Suc k)) s e = Inr [e, mo]" using el m by simp
  have l: "pre_order_children (Suc (Suc k)) s L = Inr L" using sh(3) by (rule pre_order_leaves)
  have r: "pre_order_children (Suc (Suc k)) s R = Inr R" using sh(4) by (rule pre_order_leaves)
  have er: "pre_order_children (Suc (Suc k)) s (e # R) = Inr ([e, mo] @ R)"
    using e r by simp
  have "pre_order_children (Suc (Suc k)) s (L @ e # R) = Inr (L @ [e, mo] @ R)"
    using l er by (rule pre_order_children_append)
  then show ?thesis using rl by simp
qed

text \<open>
  Claim C2. For a catalog with \<open>C\<close> orbiting bodies (and a third one among them for the
  satellite to be attached to), the build returns a tree of exactly \<open>1 + C + 1\<close> different
  nodes: the root, its \<open>C\<close> children and the satellite. The \<open>i\<close>-th child of the root is the
  node of the \<open>i\<close>-th record (its payload is the \<open>(i+1)\<close>-th of the returned sequence and
  carries the record's texture). The third child has the satellite as its only child, and
  every other child of the root has none.
\<close>

theorem tree_shape:
  assumes "2 < length (cat_Planets cat)" and "3 \<le> fuel"
  shows "\<exists>data s' sun root moon nodes.
     generateSolarSystem cat mt s = Inr (data, s') \<and>
     m_root s' = Some sun \<and> planet_heap s' sun = Some root \<and> parent root = None \<and>
     pre_order fuel s' sun = Inr nodes \<and> distinct nodes \<and>
     length nodes = 1 + length (cat_Planets cat) + 1 \<and>
     set nodes = {sun, moon} \<union> set (children root) \<and>
     length (children root) = length (cat_Planets cat) \<and>
     (\<forall>i < length (cat_Planets cat). \<exists>pl sh.
        planet_heap s' (children root ! i) = Some pl \<and> parent pl = Some sun \<and>
        children pl = (if i = 2 then [moon] else []) \<and>
        renderHandle pl = data ! Suc i \<and> shape_heap s' (renderHandle pl) = Some sh \<and>
        filename (textureMap (prim_material (primitive sh))) = texture_fname (cat_Planets cat ! i)) \<and>
     (\<exists>ml. planet_heap s' moon = Some ml \<and> parent ml = Some (children root ! 2) \<and>
        children ml = [])"
proof -
  let ?n = "planet_next s" and ?m = "shape_next s" and ?C = "length (cat_Planets cat)"
  let ?s' = "built_state cat mt s"
  let ?data = "[?m ..< ?m + ?C + 2]"
  let ?root = "sun_node cat ?n ?m"
  let ?moon = "Suc (?n + ?C)"
  let ?L = "[Suc ?n, Suc (Suc ?n)]" and ?R = "[?n + 4 ..< Suc ?n + ?C]"
  let ?nodes = "?n # ?L @ (?n + 3) # ?moon # ?R"
  from assms(2) obtain k where k: "fuel = Suc (Suc (Suc k))" using fuel3 by blast
  have shape: "system_shape ?s' ?n ?L (?n + 3) ?moon ?R"
    using assms(1) by (rule built_shape)
  have kids: "children ?root = [Suc ?n ..< Suc ?n + ?C]"
    by (simp add: sun_node_def)
  have kids': "children ?root = ?L @ (?n + 3) # ?R"
    unfolding kids using assms(1) by (rule sun_children_split)
  have pre: "pre_order fuel ?s' ?n = Inr ?nodes"
    unfolding k using shape by (rule pre_order_shape)
  have dist: "distinct ?nodes" using system_shapeD(1) [OF shape] .
  have len: "length ?nodes = 1 + ?C + 1" using assms(1) by (simp del: upt_Suc)
  have nodes: "set ?nodes = {?n, ?moon} \<union> set (children ?root)"
    unfolding kids' by auto
  have each: "\<exists>pl sh.
        planet_heap ?s' (children ?root ! i) = Some pl \<and> parent pl = Some ?n \<and>
        children pl = (if i = 2 then [?moon] else []) \<and>
        renderHandle pl = ?data ! Suc i \<and> shape_heap ?s' (renderHandle pl) = Some sh \<and>
        filename (textureMap (prim_material (primitive sh))) = texture_fname (cat_Planets cat ! i)"
    if "i < ?C" for i
  proof -
    have c: "children ?root ! i = Suc (?n + i)"
      unfolding kids using that by (rule sun_children_nth)
    have d: "?data ! Suc i = Suc (?m + i)"
      using that by (simp del: upt_Suc)
    show ?thesis
      unfolding c d using built_planet [OF that, of mt s] built_shape_planet [OF that, of mt s]
      by (simp add: planet_node_def Planet_init_def sphere_shape_def planet_mat_def
          set_filename_def)
  qed
  have third: "children ?root ! 2 = ?n + 3"
    unfolding kids' by simp
  have moon: "\<exists>ml. planet_heap ?s' ?moon = Some ml \<and> parent ml = Some (children ?root ! 2) \<and>
        children ml = []"
    unfolding third using built_moon [of cat mt s] by (simp add: moon_node_def Planet_init_def)
  have root: "parent ?root = None" "length (children ?root) = ?C"
    by (simp_all del: upt_Suc add: sun_node_def Planet_init_def)
  show ?thesis
    using generateSolarSystem_result [OF assms(1), of mt s] built_root [of cat mt s]
      built_sun [of cat mt s] root pre dist len nodes each moon
    by blast
qed

theorem tree_shape_witness:
  "2 < length (cat_Planets solar_catalog) \<and> (3::nat) \<le> 3 \<and>
   (\<exists>data s' sun root moon nodes.
     generateSolarSystem solar_catalog (\<lambda>n. 0) initial_state = Inr (data, s') \<and>
     m_root s' = Some sun \<and> planet_heap s' sun = Some root \<and> parent root = None \<and>
     pre_order 3 s' sun = Inr nodes \<and> distinct nodes \<and>
     length nodes = 1 + length (cat_Planets solar_catalog) + 1 \<and>
     set nodes = {sun, moon} \<union> set (children root) \<and>
     length (children root) = length (cat_Planets solar_catalog) \<and>
     (\<forall>i < length (cat_Planets solar_catalog). \<exists>pl sh.
        planet_heap s' (children root ! i) = Some pl \<and> parent pl = Some sun \<and>
        children pl = (if i = 2 then [moon] else []) \<and>
        renderHandle pl = data ! Suc i \<and> shape_heap s' (renderHandle pl) = Some sh \<and>
        filename (textureMap (prim_material (primitive sh))) =
          texture_fname (cat_Planets solar_catalog ! i)) \<and>
     (\<exists>ml. planet_heap s' moon = Some ml \<and> parent ml = Some (children root ! 2) \<and>
        children ml = []))"
proof -
  have len: "2 < length (cat_Planets solar_catalog)"
    by (simp add: solar_catalog_def Planets_def)
  have fuel: "(3::nat) \<le> 3" by simp
  show ?thesis
    by (intro conjI len fuel tree_shape [OF len fuel])
qed

subsection \<open>Render payloads\<close>

lemma delete_Planet_shapes:
  "delete_Planet a s = Inr s' \<Longrightarrow> shape_heap s' = shape_heap s"
  by (auto simp: delete_Planet_def split: option.splits)

lemma deletePlanet_shapes:
  "\<forall>s'. deletePlanet k s p = Inr s' \<longrightarrow> shape_heap s' = shape_heap s"
  "\<forall>s'. deletePlanet_children k s ps = Inr s' \<longrightarrow> shape_heap s' = shape_heap s"
proof (induction k s p and k s ps rule: deletePlanet_deletePlanet_children.induct)
  case (1 s cur)
  show ?case by simp
next
  case (2 k s cur)
  show ?case
  proof (intro allI impI)
    fix s' assume run: "deletePlanet (Suc k) s cur = Inr s'"
    then obtain pl s1 where pl: "planet_heap s cur = Some pl"
      and kids: "deletePlanet_children k s (children pl) = Inr s1"
      and del: "delete_Planet cur s1 = Inr s'"
      by (auto split: option.splits sum.splits)
    from "2.IH" [OF pl] kids have "shape_heap s1 = shape_heap s" by blast
    with delete_Planet_shapes [OF del] show "shape_heap s' = shape_heap s" by simp
  qed
next
  case (3 k s)
  show ?case by simp
next
  case (4 k s p ps)
  show ?case
  proof (intro allI impI)
    fix s' assume run: "deletePlanet_children k s (p # ps) = Inr s'"
    then obtain s1 where one: "deletePlanet k s p = Inr s1"
      and rest: "deletePlanet_children k s1 ps = Inr s'"
      by (auto split: sum.splits)
    from "4.IH"(1) one have a: "shape_heap s1 = shape_heap s" by blast
    from "4.IH"(2) [OF one] rest have "shape_heap s' = shape_heap s1" by blast
    with a show "shape_heap s' = shape_heap s" by simp
  qed
qed

lemma destructor_shapes:
  "PlanetarySystem_destructor fuel s = Inr s' \<Longrightarrow> shape_heap s' = shape_heap s"
  using deletePlanet_shapes(1) [of fuel s]
  by (auto simp: PlanetarySystem_destructor_def split: option.splits)

text \<open>
  Claim C7. The build returns the payloads it created in this order: the central body's,
  then the orbiting bodies' in catalog order, then the satellite's. Each is a sphere with
  the identity as its transform and the material the source sets (the record's texture;
  blend factor 1 for the central body and 0.5 for the others). The nodes refer to these
  payloads by address, and teardown of the tree leaves every payload in place: the tree
  does not own them.
\<close>

theorem render_payloads:
  assumes "2 < length (cat_Planets cat)"
  shows "\<exists>data s' sun root.
     generateSolarSystem cat mt s = Inr (data, s') \<and>
     length data = length (cat_Planets cat) + 2 \<and> distinct data \<and>
     shape_heap s' (data ! 0) =
       Some (sphere_shape (set_filename (texture_fname (cat_Sun cat)) initial_mat)) \<and>
     (\<forall>i < length (cat_Planets cat).
        shape_heap s' (data ! Suc i) =
          Some (sphere_shape (set_filename (texture_fname (cat_Planets cat ! i))
                  (initial_mat\<lparr>blend := 0.5\<rparr>)))) \<and>
     shape_heap s' (data ! Suc (length (cat_Planets cat))) =
       Some (sphere_shape (set_filename (texture_fname (cat_Moon cat))
               (initial_mat\<lparr>blend := 0.5\<rparr>))) \<and>
     (\<forall>d \<in> set data. \<exists>sh. shape_heap s' d = Some sh \<and>
        prim_type (primitive sh) = PRIMITIVE_SPHERE \<and> ctm sh = mat4_identity) \<and>
     m_root s' = Some sun \<and> planet_heap s' sun = Some root \<and> renderHandle root = data ! 0 \<and>
     (\<forall>i < length (cat_Planets cat). \<exists>pl.
        planet_heap s' (children root ! i) = Some pl \<and> renderHandle pl = data ! Suc i) \<and>
     (\<exists>pl ml. planet_heap s' (children root ! 2) = Some pl \<and>
        planet_heap s' (hd (children pl)) = Some ml \<and>
        renderHandle ml = data ! Suc (length (cat_Planets cat))) \<and>
     (\<forall>fuel s''. PlanetarySystem_destructor fuel s' = Inr s'' \<longrightarrow>
        shape_heap s'' = shape_heap s')"
proof -
  let ?n = "planet_next s" and ?m = "shape_next s" and ?C = "length (cat_Planets cat)"
  let ?s' = "built_state cat mt s"
  let ?data = "[?m ..< ?m + ?C + 2]"
  let ?root = "sun_node cat ?n ?m"
  have nth: "?data ! j = ?m + j" if "j < ?C + 2" for j
    using that by (simp del: upt_Suc)
  have d0: "?data ! 0 = ?m" using nth [of 0] by simp
  have dS: "?data ! Suc i = Suc (?m + i)" if "i < ?C" for i
    using that nth [of "Suc i"] by simp
  have dC: "?data ! Suc ?C = Suc (?m + ?C)" using nth [of "Suc ?C"] by simp
  have len: "length ?data = ?C + 2" by (simp del: upt_Suc)
  have dist: "distinct ?data" by (simp del: upt_Suc)
  have p0: "shape_heap ?s' (?data ! 0) =
       Some (sphere_shape (set_filename (texture_fname (cat_Sun cat)) initial_mat))"
    unfolding d0 by (rule built_shape_sun)
  have pS: "shape_heap ?s' (?data ! Suc i) =
          Some (sphere_shape (set_filename (texture_fname (cat_Planets cat ! i))
                  (initial_mat\<lparr>blend := 0.5\<rparr>)))" if "i < ?C" for i
    unfolding dS [OF that] using built_shape_planet [OF that, of mt s] by (simp add: planet_mat_def)
  have pC: "shape_heap ?s' (?data ! Suc ?C) =
       Some (sphere_shape (set_filename (texture_fname (cat_Moon cat))
               (initial_mat\<lparr>blend := 0.5\<rparr>)))"
    unfolding dC using built_shape_moon [of cat mt s] by (simp add: planet_mat_def)
  have spheres: "\<exists>sh. shape_heap ?s' d = Some sh \<and>
        prim_type (primitive sh) = PRIMITIVE_SPHERE \<and> ctm sh = mat4_identity"
    if "d \<in> set ?data" for d
  proof -
    from that obtain j where j: "j < ?C + 2" "d = ?data ! j"
      by (metis in_set_conv_nth len)
    consider "j = 0" | i where "j = Suc i" "i < ?C" | "j = Suc ?C"
      using j(1) by (cases j) (auto simp: less_Suc_eq)
    then show ?thesis
    proof cases
      case 1 then show ?thesis using p0 j(2) by (simp add: sphere_shape_def)
    next
      case 2 then show ?thesis using pS [of i] j(2) by (simp add: sphere_shape_def)
    next
      case 3 then show ?thesis using pC j(2) by (simp add: sphere_shape_def)
    qed
  qed
  have kids: "children ?root = [Suc ?n ..< Suc ?n + ?C]"
    by (simp add: sun_node_def)
  have rh: "renderHandle ?root = ?data ! 0"
    unfolding d0 by (simp add: sun_node_def Planet_init_def)
  have each: "\<exists>pl. planet_heap ?s' (children ?root ! i) = Some pl \<and> renderHandle pl = ?data ! Suc i"
    if "i < ?C" for i
    unfolding kids sun_children_nth [OF that] dS [OF that]
    using built_planet [OF that, of mt s] by (simp add: planet_node_def Planet_init_def)
  have third: "children ?root ! 2 = Suc (?n + 2)"
    unfolding kids using assms by (rule sun_children_nth)
  have moon: "\<exists>pl ml. planet_heap ?s' (children ?root ! 2) = Some pl \<and>
        planet_heap ?s' (hd (children pl)) = Some ml \<and> renderHandle ml = ?data ! Suc ?C"
    unfolding third dC using built_planet [OF assms, of mt s] built_moon [of cat mt s]
    by (simp add: moon_node_def Planet_init_def)
  have frame: "\<forall>fuel s''. PlanetarySystem_destructor fuel ?s' = Inr s'' \<longrightarrow>
        shape_heap s'' = shape_heap ?s'"
    using destructor_shapes by blast
  show ?thesis
    using generateSolarSystem_result [OF assms, of mt s] built_root [of cat mt s]
      built_sun [of cat mt s] len dist p0 pS pC spheres rh each moon frame
    by blast
qed

theorem render_payloads_witness:
  "2 < length (cat_Planets solar_catalog) \<and>
   (\<exists>data s' sun root.
     generateSolarSystem solar_catalog (\<lambda>n. 0) initial_state = Inr (data, s') \<and>
     length data = length (cat_Planets solar_catalog) + 2 \<and> distinct data \<and>
     shape_heap s' (data ! 0) =
       Some (sphere_shape (set_filename (texture_fname (cat_Sun solar_catalog)) initial_mat)) \<and>
     (\<forall>i < length (cat_Planets solar_catalog).
        shape_heap s' (data ! Suc i) =
          Some (sphere_shape (set_filename (texture_fname (cat_Planets solar_catalog ! i))
                  (initial_mat\<lparr>blend := 0.5\<rparr>)))) \<and>
     shape_heap s' (data ! Suc (length (cat_Planets solar_catalog))) =
       Some (sphere_shape (set_filename (texture_fname (cat_Moon solar_catalog))
               (initial_mat\<lparr>blend := 0.5\<rparr>))) \<and>
     (\<forall>d \<in> set data. \<exists>sh. shape_heap s' d = Some sh \<and>
        prim_type (primitive sh) = PRIMITIVE_SPHERE \<and> ctm sh = mat4_identity) \<and>
     m_root s' = Some sun \<and> planet_heap s' sun = Some root \<and> renderHandle root = data ! 0 \<and>
     (\<forall>i < length (cat_Planets solar_catalog). \<exists>pl.
        planet_heap s' (children root ! i) = Some pl \<and> renderHandle pl = data ! Suc i) \<and>
     (\<exists>pl ml. planet_heap s' (children root ! 2) = Some pl \<and>
        planet_heap s' (hd (children pl)) = Some ml \<and>
        renderHandle ml = data ! Suc (length (cat_Planets solar_catalog))) \<and>
     (\<forall>fuel s''. PlanetarySystem_destructor fuel s' = Inr s'' \<longrightarrow>
        shape_heap s'' = shape_heap s'))"
proof -
  have len: "2 < length (cat_Planets solar_catalog)"
    by (simp add: solar_catalog_def Planets_def)
  show ?thesis
    by (intro conjI len render_payloads [OF len])
qed

subsection \<open>States with the structure of the built tree\<close>

lemma same_structure_refl: "same_structure s s"
  by (simp add: same_structure_def)

lemma same_structure_node:
  assumes "same_structure s s2"
  shows "(\<exists>pl. planet_heap s2 a = Some pl \<and> children pl = cs \<and> parent pl = q) =
         (\<exists>pl. planet_heap s a = Some pl \<and> children pl = cs \<and> parent pl = q)"
proof -
  from assms have c: "map_option children (planet_heap s2 a) = map_option children (planet_heap s a)"
    and p: "map_option parent (planet_heap s2 a) = map_option parent (planet_heap s a)"
    unfolding same_structure_def by blast+
  show ?thesis
    using c p by (cases "planet_heap s a"; cases "planet_heap s2 a") auto
qed

lemma same_structure_shape:
  assumes "same_structure s s2" and "system_shape s r L e mo R"
  shows "system_shape s2 r L e mo R"
  using assms(2) unfolding system_shape_def leaf_under_def
  by (simp add: same_structure_node [OF assms(1)])

lemma same_structure_root:
  "same_structure s s2 \<Longrightarrow> m_root s = Some r \<Longrightarrow> m_root s2 = Some r"
  by (simp add: same_structure_def)

subsection \<open>Orbit rings\<close>

lemma orbit_leaves:
  "\<forall>c \<in> set cs. leaf_under s q c \<Longrightarrow> planet_heap s q = Some par \<Longrightarrow>
   getOrbitCtmsChildren gT gO (Suc k) s ctms cs = Inr (ctms @ map (ring_of gT gO s) cs)"
  by (induction cs arbitrary: ctms) (auto simp: leaf_under_def ring_of_def)

lemma orbit_children_append:
  "getOrbitCtmsChildren gT gO k s ctms xs = Inr c1 \<Longrightarrow>
   getOrbitCtmsChildren gT gO k s c1 ys = Inr c2 \<Longrightarrow>
   getOrbitCtmsChildren gT gO k s ctms (xs @ ys) = Inr c2"
  by (induction xs arbitrary: ctms) (auto split: sum.splits)

lemma orbit_shape:
  assumes "system_shape s r L e mo R"
  shows "getOrbitCtmsHelper gT gO (Suc (Suc (Suc k))) s [] r =
           Inr (map (ring_of gT gO s) (L @ e # mo # R))"
proof -
  note sh = system_shapeD [OF assms]
  from sh(2) obtain rl where rl: "planet_heap s r = Some rl" "children rl = L @ e # R"
    "parent rl = None" by blast
  from sh(5) obtain el where el: "planet_heap s e = Some el" "children el = [mo]"
    "parent el = Some r" by blast
  let ?f = "ring_of gT gO s"
  have l: "getOrbitCtmsChildren gT gO (Suc (Suc k)) s [] L = Inr ([] @ map ?f L)"
    using sh(3) rl(1) by (rule orbit_leaves)
  have m: "getOrbitCtmsChildren gT gO (Suc k) s (map ?f L @ [?f e]) [mo] =
      Inr ((map ?f L @ [?f e]) @ map ?f [mo])"
    by (rule orbit_leaves [OF _ el(1)]) (simp add: sh(6))
  have e: "getOrbitCtmsHelper gT gO (Suc (Suc k)) s (map ?f L) e = Inr (map ?f L @ [?f e, ?f mo])"
    using el rl(1) m by (simp add: ring_of_def)
  have r: "getOrbitCtmsChildren gT gO (Suc (Suc k)) s (map ?f L @ [?f e, ?f mo]) R =
      Inr ((map ?f L @ [?f e, ?f mo]) @ map ?f R)"
    using sh(4) rl(1) by (rule orbit_leaves)
  have er: "getOrbitCtmsChildren gT gO (Suc (Suc k)) s (map ?f L) (e # R) =
      Inr (map ?f (L @ e # mo # R))"
    using e r by simp
  have "getOrbitCtmsChildren gT gO (Suc (Suc k)) s [] (L @ e # R) = Inr (map ?f (L @ e # mo # R))"
    using l er by (simp add: orbit_children_append)
  then show ?thesis using rl by simp
qed

lemma vec4_unit_laws:
  "vec4_smul v 1 = v"
  "vec4_smul v 0 = Vec4 0 0 0 0"
  "vec4_add v (Vec4 0 0 0 0) = v"
  "vec4_add (Vec4 0 0 0 0) v = v"
  by (cases v; simp)+

lemma mat4_mul_identity: "mat4_mul m mat4_identity = m"
  by (cases m) (simp add: mat4_identity_def vec4_unit_laws)

lemma ring_of_is_ring:
  assumes "system_shape s r L e mo R" and "a \<in> set (L @ e # mo # R)"
  shows "is_ring gT gO s (ring_of gT gO s a) a"
proof -
  note sh = system_shapeD [OF assms(1)]
  from sh(2) obtain rl where rl: "planet_heap s r = Some rl" by blast
  from sh(5) obtain el where el: "planet_heap s e = Some el" "parent el = Some r" by blast
  have leaf: "is_ring gT gO s (ring_of gT gO s c) c"
    if "leaf_under s q c" "planet_heap s q = Some par" for q c par
    using that
    by (auto simp: leaf_under_def is_ring_def ring_of_def orbit_ctm_def mat4_mul_identity)
  have e: "is_ring gT gO s (ring_of gT gO s e) e"
    using el rl by (auto simp: is_ring_def ring_of_def orbit_ctm_def mat4_mul_identity)
  from assms(2) consider "a \<in> set L" | "a = e" | "a = mo" | "a \<in> set R" by auto
  then show ?thesis
  proof cases
    case 1 then show ?thesis using sh(3) rl leaf by blast
  next
    case 2 then show ?thesis using e by simp
  next
    case 3 then show ?thesis using sh(6) el(1) leaf by blast
  next
    case 4 then show ?thesis using sh(4) rl leaf by blast
  qed
qed

text \<open>
  Claim C3. The build returns a tree whose pre-order is the root followed by \<open>C + 1\<close>
  nodes. On it, and on every later state with the same structure, \<open>getOrbitCtms\<close> (with
  fuel for the three levels) returns one matrix for each node but the root, \<open>C + 1\<close> of
  them, in the order of the pre-order with the root left out; the matrix of a node is the
  translation of its parent, composed with the uniform scale by twice the node's orbit
  radius, composed with the node's orientation.
\<close>

theorem orbit_rings:
  assumes "2 < length (cat_Planets cat)" and "3 \<le> fuel"
  shows "\<exists>data s' sun nodes.
     generateSolarSystem cat mt s = Inr (data, s') \<and> m_root s' = Some sun \<and>
     pre_order fuel s' sun = Inr (sun # nodes) \<and>
     length nodes = length (cat_Planets cat) + 1 \<and>
     (\<forall>s2. same_structure s' s2 \<longrightarrow>
        (\<exists>ctms. getOrbitCtms gT gO fuel s2 = Inr ctms \<and>
           length ctms = length (sun # nodes) - 1 \<and>
           list_all2 (is_ring gT gO s2) ctms nodes))"
proof -
  let ?n = "planet_next s" and ?C = "length (cat_Planets cat)"
  let ?s' = "built_state cat mt s"
  let ?moon = "Suc (?n + ?C)"
  let ?L = "[Suc ?n, Suc (Suc ?n)]" and ?R = "[?n + 4 ..< Suc ?n + ?C]"
  let ?nodes = "?L @ (?n + 3) # ?moon # ?R"
  from assms(2) obtain k where k: "fuel = Suc (Suc (Suc k))" using fuel3 by blast
  have shape: "system_shape ?s' ?n ?L (?n + 3) ?moon ?R"
    using assms(1) by (rule built_shape)
  have root: "m_root ?s' = Some ?n" by (rule built_root)
  have pre: "pre_order fuel ?s' ?n = Inr (?n # ?nodes)"
    unfolding k using shape by (rule pre_order_shape)
  have len: "length ?nodes = ?C + 1" using assms(1) by (simp del: upt_Suc)
  have later: "\<exists>ctms. getOrbitCtms gT gO fuel s2 = Inr ctms \<and>
           length ctms = length (?n # ?nodes) - 1 \<and>
           list_all2 (is_ring gT gO s2) ctms ?nodes"
    if same: "same_structure ?s' s2" for s2
  proof -
    let ?ctms = "map (ring_of gT gO s2) ?nodes"
    have shape2: "system_shape s2 ?n ?L (?n + 3) ?moon ?R"
      using same shape by (rule same_structure_shape)
    have root2: "m_root s2 = Some ?n"
      using same root by (rule same_structure_root)
    have run: "getOrbitCtms gT gO fuel s2 = Inr ?ctms"
      unfolding k getOrbitCtms_def using orbit_shape [OF shape2, of gT gO k]
      by (simp only: root2 option.case)
    have len': "length ?ctms = length (?n # ?nodes) - 1" by simp
    have rings: "list_all2 (is_ring gT gO s2) ?ctms ?nodes"
      unfolding list_all2_map1 using ring_of_is_ring [OF shape2]
      by (intro list.rel_refl_strong) blast
    show ?thesis using run len' rings by blast
  qed
  show ?thesis
    using generateSolarSystem_result [OF assms(1), of mt s] root pre len later
    by blast
qed

theorem orbit_rings_witness:
  "2 < length (cat_Planets solar_catalog) \<and> (3::nat) \<le> 3 \<and>
   (\<exists>data s' sun nodes ctms.
     generateSolarSystem solar_catalog (\<lambda>n. 0) initial_state = Inr (data, s') \<and>
     m_root s' = Some sun \<and>
     pre_order 3 s' sun = Inr (sun # nodes) \<and>
     length nodes = 9 \<and> same_structure s' s' \<and>
     getOrbitCtms (\<lambda>p. glm_scale (axis p)) (\<lambda>p. glm_scale (axis p)) 3 s' = Inr ctms \<and>
     length ctms = 9 \<and>
     list_all2 (is_ring (\<lambda>p. glm_scale (axis p)) (\<lambda>p. glm_scale (axis p)) s') ctms nodes)"
proof -
  let ?g = "\<lambda>p. glm_scale (axis p)"
  have len: "2 < length (cat_Planets solar_catalog)"
    by (simp add: solar_catalog_def Planets_def)
  have eight: "length (cat_Planets solar_catalog) = 8"
    by (simp add: solar_catalog_def Planets_def)
  have fuel: "(3::nat) \<le> 3" by simp
  from orbit_rings [OF len fuel, of "\<lambda>n. 0" initial_state ?g ?g]
  obtain data s' sun nodes where
    g: "generateSolarSystem solar_catalog (\<lambda>n. 0) initial_state = Inr (data, s')"
    and r: "m_root s' = Some sun" and p: "pre_order 3 s' sun = Inr (sun # nodes)"
    and n: "length nodes = length (cat_Planets solar_catalog) + 1"
    and later: "\<forall>s2. same_structure s' s2 \<longrightarrow>
        (\<exists>ctms. getOrbitCtms ?g ?g 3 s2 = Inr ctms \<and>
           length ctms = length (sun # nodes) - 1 \<and> list_all2 (is_ring ?g ?g s2) ctms nodes)"
    by blast
  have same: "same_structure s' s'" by (rule same_structure_refl)
  from later [rule_format, OF same] obtain ctms where
    c: "getOrbitCtms ?g ?g 3 s' = Inr ctms" "length ctms = length (sun # nodes) - 1"
      "list_all2 (is_ring ?g ?g s') ctms nodes"
    by (elim exE conjE)
  have n9: "length nodes = 9" using n eight by simp
  have c9: "length ctms = 9" using c(2) n9 by simp
  show ?thesis
    by (intro conjI len fuel, rule exI [of _ data], rule exI [of _ s'], rule exI [of _ sun],
        rule exI [of _ nodes], rule exI [of _ ctms])
      (intro conjI g r p n9 same c(1) c9 c(3))
qed

subsection \<open>The per-frame update\<close>

lemma advance_all_heap:
  "planet_heap (advance_all dt as s) a =
     (if a \<in> set as then map_option (advance_node dt) (planet_heap s a) else planet_heap s a)"
  by (simp add: advance_all_def)

lemma advance_all_fields [simp]:
  "planet_next (advance_all dt as s) = planet_next s"
  "shape_heap (advance_all dt as s) = shape_heap s"
  "shape_next (advance_all dt as s) = shape_next s"
  "m_root (advance_all dt as s) = m_root s"
  "released (advance_all dt as s) = released s"
  by (simp_all add: advance_all_def)

lemma advance_all_append:
  "set xs \<inter> set ys = {} \<Longrightarrow>
   advance_all dt ys (advance_all dt xs s) = advance_all dt (xs @ ys) s"
  by (rule state.equality) (auto simp: advance_all_def fun_eq_iff)

lemma advance_one:
  "planet_heap s a = Some pl \<Longrightarrow>
   s\<lparr>planet_heap := (planet_heap s)(a \<mapsto> advance_node dt pl)\<rparr> = advance_all dt [a] s"
  by (rule state.equality) (auto simp: advance_all_def fun_eq_iff)

lemma node_advance:
  "(\<exists>pl. planet_heap (advance_all dt as s) a = Some pl \<and> children pl = cs \<and> parent pl = q) =
   (\<exists>pl. planet_heap s a = Some pl \<and> children pl = cs \<and> parent pl = q)"
  by (auto simp: advance_all_heap advance_node_def)

lemma leaf_under_advance [simp]:
  "leaf_under (advance_all dt as s) q c = leaf_under s q c"
  unfolding leaf_under_def by (rule node_advance)

lemma leaf_under_advance_eta [simp]:
  "leaf_under (advance_all dt as s) q = leaf_under s q"
  by (rule ext) simp

lemma system_shape_advance [simp]:
  "system_shape (advance_all dt as s) r L e mo R = system_shape s r L e mo R"
  unfolding system_shape_def by (simp only: node_advance leaf_under_advance_eta)

lemma update_leaves:
  "distinct cs \<Longrightarrow> \<forall>c \<in> set cs. leaf_under s q c \<Longrightarrow>
   updateCTM_children (Suc k) dt s cs = Inr (advance_all dt cs s)"
proof (induction cs arbitrary: s)
  case Nil
  show ?case by (simp add: advance_all_def)
next
  case (Cons c cs)
  from Cons.prems obtain pl where pl: "planet_heap s c = Some pl" "children pl = []"
    by (auto simp: leaf_under_def)
  have one: "updateCTM (Suc k) dt s c = Inr (advance_all dt [c] s)"
    using pl by (simp add: advance_one)
  have rest: "updateCTM_children (Suc k) dt (advance_all dt [c] s) cs =
      Inr (advance_all dt cs (advance_all dt [c] s))"
    using Cons.prems by (intro Cons.IH) simp_all
  have "advance_all dt cs (advance_all dt [c] s) = advance_all dt ([c] @ cs) s"
    using Cons.prems by (intro advance_all_append) simp
  then show ?case using one rest by simp
qed

lemma update_children_append:
  "updateCTM_children k dt s xs = Inr s1 \<Longrightarrow> updateCTM_children k dt s1 ys = Inr s2 \<Longrightarrow>
   updateCTM_children k dt s (xs @ ys) = Inr s2"
  by (induction xs arbitrary: s) (auto split: sum.splits)

lemma update_shape:
  assumes "system_shape s r L e mo R"
  shows "updateCTM (Suc (Suc (Suc k))) dt s r = Inr (advance_all dt (r # L @ e # mo # R) s)"
proof -
  note sh = system_shapeD [OF assms]
  from sh(2) obtain rl where rl: "planet_heap s r = Some rl" "children rl = L @ e # R" by blast
  from sh(5) obtain el where el: "planet_heap s e = Some el" "children el = [mo]" by blast
  let ?s1 = "advance_all dt [r] s"
  let ?s2 = "advance_all dt ([r] @ L) s"
  let ?s3 = "advance_all dt (([r] @ L) @ [e]) s"
  let ?s4 = "advance_all dt ((([r] @ L) @ [e]) @ [mo]) s"
  let ?s5 = "advance_all dt (((([r] @ L) @ [e]) @ [mo]) @ R) s"
  have l: "updateCTM_children (Suc (Suc k)) dt ?s1 L = Inr ?s2"
    using sh(1,3) by (subst update_leaves [where q = r]) (simp_all add: advance_all_append)
  have e2: "planet_heap ?s2 e = Some el"
    using sh(1) el by (auto simp: advance_all_heap)
  have m: "updateCTM_children (Suc k) dt ?s3 [mo] = Inr ?s4"
    using sh(1,6) by (subst update_leaves [where q = e]) (simp_all add: advance_all_append)
  have s23: "?s2\<lparr>planet_heap := (planet_heap ?s2)(e \<mapsto> advance_node dt el)\<rparr> = ?s3"
    unfolding advance_one [OF e2] using sh(1) by (intro advance_all_append) auto
  have e: "updateCTM (Suc (Suc k)) dt ?s2 e = Inr ?s4"
    using e2 el(2) m by (simp only: updateCTM.simps option.case s23)
  have r: "updateCTM_children (Suc (Suc k)) dt ?s4 R = Inr ?s5"
    using sh(1,4) by (subst update_leaves [where q = r]) (simp_all add: advance_all_append)
  have er: "updateCTM_children (Suc (Suc k)) dt ?s2 (e # R) = Inr ?s5"
    using e r by simp
  have all: "updateCTM_children (Suc (Suc k)) dt ?s1 (L @ e # R) = Inr ?s5"
    using l er by (rule update_children_append)
  have "updateCTM (Suc (Suc (Suc k))) dt s r = Inr ?s5"
    using rl all by (simp only: updateCTM.simps option.case advance_one [OF rl(1)])
  then show ?thesis by simp
qed

lemma update_run:
  assumes "system_shape s r L e mo R" and "m_root s = Some r"
  shows "update (Suc (Suc (Suc k))) dt s = Inr (advance_all dt (r # L @ e # mo # R) s)"
  unfolding update_def using update_shape [OF assms(1), of k dt]
  by (simp only: assms(2) option.case)

lemma map_advance_zero: "map_option (advance_node 0) x = x"
  by (cases x) (simp_all add: advance_node_def)

lemma map_advance_add:
  "map_option (advance_node b) (map_option (advance_node a) x) = map_option (advance_node (a + b)) x"
  by (cases x) (simp_all add: advance_node_def algebra_simps)

lemma advance_all_zero: "advance_all 0 as s = s"
  by (rule state.equality) (auto simp: advance_all_def fun_eq_iff map_advance_zero)

lemma advance_all_add: "advance_all b as (advance_all a as s) = advance_all (a + b) as s"
  by (rule state.equality) (auto simp: advance_all_def fun_eq_iff map_advance_add)

lemma same_structure_advance:
  "same_structure s s2 \<Longrightarrow> same_structure s (advance_all dt as s2)"
  unfolding same_structure_def
  by (auto simp: advance_all_heap advance_node_def option.map_comp comp_def)

text \<open>Every state reached from a tree of the built shape by updates has the structure of
  that tree.\<close>

lemma updates_structure:
  assumes "system_shape s r L e mo R" and "m_root s = Some r"
  shows "\<exists>s'. updates (Suc (Suc (Suc k))) dts s = Inr s' \<and> same_structure s s'"
proof -
  have "\<exists>s'. updates (Suc (Suc (Suc k))) dts s2 = Inr s' \<and> same_structure s s'"
    if "same_structure s s2" for s2
    using that
  proof (induction dts arbitrary: s2)
    case Nil
    then show ?case by simp
  next
    case (Cons d ds)
    let ?s3 = "advance_all d (r # L @ e # mo # R) s2"
    have step: "update (Suc (Suc (Suc k))) d s2 = Inr ?s3"
      using same_structure_shape [OF Cons.prems assms(1)]
        same_structure_root [OF Cons.prems assms(2)]
      by (rule update_run)
    have "same_structure s ?s3"
      using Cons.prems by (rule same_structure_advance)
    from Cons.IH [OF this] show ?case using step by simp
  qed
  from this [OF same_structure_refl] show ?thesis .
qed

text \<open>
  Claim C4. On the built tree and on every later state with the same structure, \<open>update\<close>
  with \<open>deltaTime = 0\<close> returns the very state it was given, so every phase, every spin
  angle and everything derived from them is unchanged; and \<open>update a\<close> followed by
  \<open>update b\<close> returns the state that one \<open>update (a + b)\<close> returns, hence the same phase
  (and spin angle) in every node. An update keeps the structure, so this holds in every
  state the tree reaches. The numbers are reals; the equalities hold for every \<open>a\<close> and
  \<open>b\<close>, the non-negative ones included.
\<close>

theorem advance_zero_and_additive:
  assumes "2 < length (cat_Planets cat)" and "3 \<le> fuel"
  shows "\<exists>data s'.
     generateSolarSystem cat mt s = Inr (data, s') \<and>
     (\<forall>s2. same_structure s' s2 \<longrightarrow>
        update fuel 0 s2 = Inr s2 \<and>
        (\<exists>s3 s4. update fuel a s2 = Inr s3 \<and> same_structure s' s3 \<and>
           update fuel b s3 = Inr s4 \<and> update fuel (a + b) s2 = Inr s4))"
proof -
  let ?n = "planet_next s" and ?C = "length (cat_Planets cat)"
  let ?s' = "built_state cat mt s"
  let ?moon = "Suc (?n + ?C)"
  let ?L = "[Suc ?n, Suc (Suc ?n)]" and ?R = "[?n + 4 ..< Suc ?n + ?C]"
  let ?nodes = "?n # ?L @ (?n + 3) # ?moon # ?R"
  from assms(2) obtain k where k: "fuel = Suc (Suc (Suc k))" using fuel3 by blast
  have shape: "system_shape ?s' ?n ?L (?n + 3) ?moon ?R"
    using assms(1) by (rule built_shape)
  have root: "m_root ?s' = Some ?n" by (rule built_root)
  have later: "update fuel 0 s2 = Inr s2 \<and>
        (\<exists>s3 s4. update fuel a s2 = Inr s3 \<and> same_structure ?s' s3 \<and>
           update fuel b s3 = Inr s4 \<and> update fuel (a + b) s2 = Inr s4)"
    if same: "same_structure ?s' s2" for s2
  proof -
    let ?s3 = "advance_all a ?nodes s2"
    have shape2: "system_shape s2 ?n ?L (?n + 3) ?moon ?R"
      using same shape by (rule same_structure_shape)
    have root2: "m_root s2 = Some ?n"
      using same root by (rule same_structure_root)
    have zero: "update fuel 0 s2 = Inr s2"
      unfolding k update_run [OF shape2 root2] by (simp only: advance_all_zero)
    have first: "update fuel a s2 = Inr ?s3"
      unfolding k by (rule update_run [OF shape2 root2])
    have same3: "same_structure ?s' ?s3"
      using same by (rule same_structure_advance)
    have shape3: "system_shape ?s3 ?n ?L (?n + 3) ?moon ?R"
      using same3 shape by (rule same_structure_shape)
    have root3: "m_root ?s3 = Some ?n"
      using same3 root by (rule same_structure_root)
    have second: "update fuel b ?s3 = Inr (advance_all (a + b) ?nodes s2)"
      unfolding k update_run [OF shape3 root3] by (simp only: advance_all_add)
    have both: "update fuel (a + b) s2 = Inr (advance_all (a + b) ?nodes s2)"
      unfolding k by (rule update_run [OF shape2 root2])
    show ?thesis using zero first same3 second both by blast
  qed
  show ?thesis
    using generateSolarSystem_result [OF assms(1), of mt s] later by blast
qed

theorem advance_zero_and_additive_witness:
  "2 < length (cat_Planets solar_catalog) \<and> (3::nat) \<le> 3 \<and>
   (\<exists>data s' s3 s4.
     generateSolarSystem solar_catalog (\<lambda>n. 0) initial_state = Inr (data, s') \<and>
     same_structure s' s' \<and> update 3 0 s' = Inr s' \<and>
     update 3 (1 / 60) s' = Inr s3 \<and> same_structure s' s3 \<and>
     update 3 (1 / 30) s3 = Inr s4 \<and> update 3 (1 / 60 + 1 / 30) s' = Inr s4)"
proof -
  have len: "2 < length (cat_Planets solar_catalog)"
    by (simp add: solar_catalog_def Planets_def)
  have fuel: "(3::nat) \<le> 3" by simp
  from advance_zero_and_additive [OF len fuel, of "\<lambda>n. 0" initial_state "1 / 60" "1 / 30"]
  obtain data s' where
    g: "generateSolarSystem solar_catalog (\<lambda>n. 0) initial_state = Inr (data, s')"
    and later: "\<forall>s2. same_structure s' s2 \<longrightarrow>
        update 3 0 s2 = Inr s2 \<and>
        (\<exists>s3 s4. update 3 (1 / 60) s2 = Inr s3 \<and> same_structure s' s3 \<and>
           update 3 (1 / 30) s3 = Inr s4 \<and> update 3 (1 / 60 + 1 / 30) s2 = Inr s4)"
    by blast
  have same: "same_structure s' s'" by (rule same_structure_refl)
  from later [rule_format, OF same] obtain s3 s4 where
    u: "update 3 0 s' = Inr s'" "update 3 (1 / 60) s' = Inr s3" "same_structure s' s3"
      "update 3 (1 / 30) s3 = Inr s4" "update 3 (1 / 60 + 1 / 30) s' = Inr s4"
    by (elim exE conjE)
  show ?thesis
    by (intro conjI len fuel, rule exI [of _ data], rule exI [of _ s'], rule exI [of _ s3],
        rule exI [of _ s4])
      (intro conjI g same u)
qed

subsection \<open>Orbit radii and phases\<close>

lemma log10_16: "6 / 5 < log 10 (16::real)"
proof -
  have a: "log 10 ((16::real) ^ 5) = 5 * log 10 16"
    by (subst log_nat_power) simp_all
  have b: "log 10 ((10::real) ^ 6) = 6"
    by (subst log_pow_cancel) simp_all
  have "log 10 ((10::real) ^ 6) < log 10 (16 ^ 5)"
    by (subst log_less_cancel_iff) simp_all
  with a b show ?thesis by simp
qed

lemma scaleOrbitalRadius_pos:
  assumes "16 \<le> r"
  shows "0 < scaleOrbitalRadius r"
proof -
  have "log 10 16 \<le> log 10 r"
    using assms by (subst log_le_cancel_iff) simp_all
  with log10_16 show ?thesis by (simp add: scaleOrbitalRadius_def)
qed

lemma solar_orbital_radii:
  "i < length (cat_Planets solar_catalog) \<Longrightarrow>
   16 \<le> orbital_radius (cat_Planets solar_catalog ! i) \<and>
   0 \<le> orbital_period (cat_Planets solar_catalog ! i)"
  by (auto simp: solar_catalog_def Planets_def Mercury_def Venus_def Earth_def Mars_def
      Jupiter_def Saturn_def Uranus_def Neptune_def nth_Cons' less_Suc_eq eval_nat_numeral)

lemma orbits_ok_advance:
  assumes "0 \<le> dt" and "orbits_ok s r nodes"
  shows "orbits_ok (advance_all dt as s) r nodes"
proof -
  have one: "\<exists>pl'. planet_heap (advance_all dt as s) a = Some pl' \<and>
      orbitRadius pl' = orbitRadius pl \<and> phase pl \<le> phase pl' \<and>
      orbitalRate pl' = orbitalRate pl"
    if "planet_heap s a = Some pl" "0 \<le> orbitalRate pl" for a pl
    using that assms(1) by (simp add: advance_all_heap advance_node_def)
  from assms(2) obtain rl where rl: "planet_heap s r = Some rl" "orbitRadius rl = 0"
    unfolding orbits_ok_def by blast
  have root: "\<exists>rl'. planet_heap (advance_all dt as s) r = Some rl' \<and> orbitRadius rl' = 0"
    using rl by (simp add: advance_all_heap advance_node_def)
  have others: "\<exists>pl. planet_heap (advance_all dt as s) a = Some pl \<and>
        0 < orbitRadius pl \<and> 0 \<le> phase pl \<and> 0 \<le> orbitalRate pl" if "a \<in> set nodes" for a
  proof -
    from assms(2) that obtain pl where pl: "planet_heap s a = Some pl"
      "0 < orbitRadius pl" "0 \<le> phase pl" "0 \<le> orbitalRate pl"
      unfolding orbits_ok_def by blast
    from one [OF pl(1) pl(4)] obtain pl' where "planet_heap (advance_all dt as s) a = Some pl'"
      "orbitRadius pl' = orbitRadius pl" "phase pl \<le> phase pl'" "orbitalRate pl' = orbitalRate pl"
      by blast
    with pl show ?thesis by auto
  qed
  show ?thesis unfolding orbits_ok_def using root others by blast
qed

lemma updates_invariant:
  assumes "system_shape s r L e mo R" and "m_root s = Some r"
    and "orbits_ok s r (L @ e # mo # R)" and "\<forall>d \<in> set dts. 0 \<le> d"
  shows "\<exists>s'. updates (Suc (Suc (Suc k))) dts s = Inr s' \<and>
     system_shape s' r L e mo R \<and> m_root s' = Some r \<and> orbits_ok s' r (L @ e # mo # R)"
  using assms
proof (induction dts arbitrary: s)
  case Nil
  then show ?case by simp
next
  case (Cons d ds)
  let ?s1 = "advance_all d (r # L @ e # mo # R) s"
  have step: "update (Suc (Suc (Suc k))) d s = Inr ?s1"
    using Cons.prems(1,2) by (rule update_run)
  have "\<exists>s'. updates (Suc (Suc (Suc k))) ds ?s1 = Inr s' \<and>
     system_shape s' r L e mo R \<and> m_root s' = Some r \<and> orbits_ok s' r (L @ e # mo # R)"
  proof (rule Cons.IH)
    show "system_shape ?s1 r L e mo R"
      using Cons.prems(1) by (simp only: system_shape_advance)
    show "m_root ?s1 = Some r"
      using Cons.prems(2) by (simp only: advance_all_fields)
    show "orbits_ok ?s1 r (L @ e # mo # R)"
      using Cons.prems(3,4) by (intro orbits_ok_advance) simp_all
    show "\<forall>d \<in> set ds. 0 \<le> d"
      using Cons.prems(4) by simp
  qed
  then show ?case using step by simp
qed

lemma built_solar_orbits:
  assumes "\<forall>n. 0 \<le> mt n \<and> mt n < 2 * pi"
    and "a \<in> set ([Suc (planet_next s), Suc (Suc (planet_next s))] @ (planet_next s + 3) #
           Suc (planet_next s + length (cat_Planets solar_catalog)) #
           [planet_next s + 4 ..< Suc (planet_next s) + length (cat_Planets solar_catalog)])"
  shows "\<exists>pl. planet_heap (built_state solar_catalog mt s) a = Some pl \<and>
     0 < orbitRadius pl \<and> 0 \<le> phase pl \<and> phase pl < 2 * pi \<and> 0 \<le> orbitalRate pl"
proof -
  let ?C = "length (cat_Planets solar_catalog)"
  have len: "2 < ?C" by (simp add: solar_catalog_def Planets_def)
  from built_nodes_cases [OF len assms(2)]
  consider i where "i < ?C" "a = Suc (planet_next s + i)" | "a = Suc (planet_next s + ?C)"
    by blast
  then show ?thesis
  proof cases
    case 1
    from scaleOrbitalRadius_pos [OF solar_orbital_radii [OF 1(1), THEN conjunct1]]
      solar_orbital_radii [OF 1(1), THEN conjunct2]
    show ?thesis
      unfolding 1(2) using built_planet [OF 1(1), of mt s] assms(1)
      by (simp add: planet_node_def Planet_init_def scaleVelocity_def)
  next
    case 2
    show ?thesis
      unfolding 2 using built_moon [of solar_catalog mt s] assms(1)
      by (simp add: moon_node_def Planet_init_def scaleVelocity_def solar_catalog_def Moon_def)
  qed
qed

text \<open>
  Claim C8, as the code has it. For the catalog of the source and a random source that
  yields values in \<open>[0, 2\<pi>)\<close>: after construction the root has orbit radius 0 and every
  other node has a positive orbit radius and a phase in \<open>[0, 2\<pi>)\<close>. After any sequence of
  updates by non-negative times the tree has the same nodes, the root still has orbit
  radius 0, and every other node still has a positive orbit radius and a phase that is not
  negative. The phase is not kept below \<open>2\<pi>\<close>: the update adds to it and never wraps.
\<close>

theorem orbit_radius_invariant:
  assumes "\<forall>n. 0 \<le> mt n \<and> mt n < 2 * pi" and "3 \<le> fuel" and "\<forall>d \<in> set dts. 0 \<le> d"
  shows "\<exists>data s0 sun nodes s'.
     generateSolarSystem solar_catalog mt s = Inr (data, s0) \<and>
     m_root s0 = Some sun \<and> pre_order fuel s0 sun = Inr (sun # nodes) \<and>
     (\<exists>rl. planet_heap s0 sun = Some rl \<and> orbitRadius rl = 0) \<and>
     (\<forall>a \<in> set nodes. \<exists>pl. planet_heap s0 a = Some pl \<and>
        0 < orbitRadius pl \<and> 0 \<le> phase pl \<and> phase pl < 2 * pi) \<and>
     updates fuel dts s0 = Inr s' \<and>
     m_root s' = Some sun \<and> pre_order fuel s' sun = Inr (sun # nodes) \<and>
     (\<exists>rl. planet_heap s' sun = Some rl \<and> orbitRadius rl = 0) \<and>
     (\<forall>a \<in> set nodes. \<exists>pl. planet_heap s' a = Some pl \<and>
        0 < orbitRadius pl \<and> 0 \<le> phase pl)"
proof -
  let ?n = "planet_next s" and ?C = "length (cat_Planets solar_catalog)"
  let ?s0 = "built_state solar_catalog mt s"
  let ?moon = "Suc (?n + ?C)"
  let ?L = "[Suc ?n, Suc (Suc ?n)]" and ?R = "[?n + 4 ..< Suc ?n + ?C]"
  let ?nodes = "?L @ (?n + 3) # ?moon # ?R"
  have len: "2 < ?C" by (simp add: solar_catalog_def Planets_def)
  from assms(2) obtain k where k: "fuel = Suc (Suc (Suc k))" using fuel3 by blast
  have shape: "system_shape ?s0 ?n ?L (?n + 3) ?moon ?R"
    using len by (rule built_shape)
  have root: "m_root ?s0 = Some ?n" by (rule built_root)
  have pre0: "pre_order fuel ?s0 ?n = Inr (?n # ?nodes)"
    unfolding k using shape by (rule pre_order_shape)
  have sun0: "\<exists>rl. planet_heap ?s0 ?n = Some rl \<and> orbitRadius rl = 0"
    using built_sun [of solar_catalog mt s] by (simp add: sun_node_def Planet_init_def)
  have nodes0: "\<forall>a \<in> set ?nodes. \<exists>pl. planet_heap ?s0 a = Some pl \<and>
        0 < orbitRadius pl \<and> 0 \<le> phase pl \<and> phase pl < 2 * pi \<and> 0 \<le> orbitalRate pl"
    using built_solar_orbits [OF assms(1), of _ s] by blast
  have ok0: "orbits_ok ?s0 ?n ?nodes"
    unfolding orbits_ok_def using sun0 nodes0 by blast
  from updates_invariant [OF shape root ok0 assms(3), of k]
  obtain s' where run: "updates fuel dts ?s0 = Inr s'"
    and shape': "system_shape s' ?n ?L (?n + 3) ?moon ?R"
    and root': "m_root s' = Some ?n" and ok': "orbits_ok s' ?n ?nodes"
    unfolding k by blast
  have pre': "pre_order fuel s' ?n = Inr (?n # ?nodes)"
    unfolding k using shape' by (rule pre_order_shape)
  have sun': "\<exists>rl. planet_heap s' ?n = Some rl \<and> orbitRadius rl = 0"
    using ok' unfolding orbits_ok_def by blast
  have nodes': "\<forall>a \<in> set ?nodes. \<exists>pl. planet_heap s' a = Some pl \<and>
        0 < orbitRadius pl \<and> 0 \<le> phase pl"
    using ok' unfolding orbits_ok_def by blast
  have nodes0': "\<forall>a \<in> set ?nodes. \<exists>pl. planet_heap ?s0 a = Some pl \<and>
        0 < orbitRadius pl \<and> 0 \<le> phase pl \<and> phase pl < 2 * pi"
    using nodes0 by blast
  show ?thesis
    using generateSolarSystem_result [OF len, of mt s] root pre0 sun0 nodes0' run root' pre'
      sun' nodes'
    by blast
qed

theorem orbit_radius_invariant_witness:
  "(0::real) \<le> 0 \<and> (0::real) < 2 * pi \<and> (3::nat) \<le> 3 \<and> (0::real) \<le> 1 / 60 \<and>
   (\<exists>data s0 sun nodes s'.
     generateSolarSystem solar_catalog (\<lambda>n. 0) initial_state = Inr (data, s0) \<and>
     m_root s0 = Some sun \<and> pre_order 3 s0 sun = Inr (sun # nodes) \<and>
     (\<exists>rl. planet_heap s0 sun = Some rl \<and> orbitRadius rl = 0) \<and>
     (\<forall>a \<in> set nodes. \<exists>pl. planet_heap s0 a = Some pl \<and>
        0 < orbitRadius pl \<and> 0 \<le> phase pl \<and> phase pl < 2 * pi) \<and>
     updates 3 [1 / 60, 1 / 60] s0 = Inr s' \<and>
     m_root s' = Some sun \<and> pre_order 3 s' sun = Inr (sun # nodes) \<and>
     (\<exists>rl. planet_heap s' sun = Some rl \<and> orbitRadius rl = 0) \<and>
     (\<forall>a \<in> set nodes. \<exists>pl. planet_heap s' a = Some pl \<and>
        0 < orbitRadius pl \<and> 0 \<le> phase pl))"
proof -
  have rng: "\<forall>n::nat. (0::real) \<le> 0 \<and> (0::real) < 2 * pi" by simp
  have fuel: "(3::nat) \<le> 3" by simp
  have dts: "\<forall>d \<in> set [1 / 60, 1 / 60 :: real]. 0 \<le> d" by simp
  have pos: "(0::real) < 2 * pi" by simp
  have d: "(0::real) \<le> 1 / 60" by simp
  show ?thesis
    by (intro conjI order_refl pos fuel d
        orbit_radius_invariant [of "\<lambda>n. 0", OF rng fuel dts])
qed

lemma sqrt_88: "2 * pi \<le> sqrt (1 / 88) * 10 * 10"
proof -
  have "(1 / 10)\<^sup>2 \<le> (1 / 88 :: real)" by (simp add: power2_eq_square)
  then have "1 / 10 \<le> sqrt (1 / 88 :: real)" by (rule real_le_rsqrt)
  then have "10 \<le> sqrt (1 / 88 :: real) * 10 * 10" by simp
  moreover have "2 * pi < 8" using pi_less_4 by simp
  ultimately show ?thesis by simp
qed

text \<open>
  Claim C8 as stated fails on the phase. With the catalog of the source, every draw of
  the random source 0 and one update by \<open>deltaTime = 10\<close>, the node at address 1
  (Mercury, a child of the root) has phase \<open>sqrt (1 / 88) \<cdot> 10 \<cdot> 10\<close>, which is not below
  \<open>2\<pi>\<close>.
\<close>

theorem phase_bound_counterexample:
  "generateSolarSystem solar_catalog (\<lambda>n. 0) initial_state =
     Inr ([0..<10], built_state solar_catalog (\<lambda>n. 0) initial_state) \<and>
   update 3 10 (built_state solar_catalog (\<lambda>n. 0) initial_state) =
     Inr (advance_all 10 [0, 1, 2, 3, 9, 4, 5, 6, 7, 8]
            (built_state solar_catalog (\<lambda>n. 0) initial_state)) \<and>
   map_option parent
     (planet_heap (advance_all 10 [0, 1, 2, 3, 9, 4, 5, 6, 7, 8]
        (built_state solar_catalog (\<lambda>n. 0) initial_state)) 1) = Some (Some 0) \<and>
   map_option phase
     (planet_heap (advance_all 10 [0, 1, 2, 3, 9, 4, 5, 6, 7, 8]
        (built_state solar_catalog (\<lambda>n. 0) initial_state)) 1) = Some (sqrt (1 / 88) * 10 * 10) \<and>
   \<not> sqrt (1 / 88) * 10 * 10 < 2 * pi"
proof -
  let ?s0 = "built_state solar_catalog (\<lambda>n. 0) initial_state"
  have eight: "length (cat_Planets solar_catalog) = 8"
    by (simp add: solar_catalog_def Planets_def)
  have len: "2 < length (cat_Planets solar_catalog)" unfolding eight by simp
  have init: "planet_next initial_state = 0" "shape_next initial_state = 0"
    by (simp_all add: initial_state_def)
  have gen: "generateSolarSystem solar_catalog (\<lambda>n. 0) initial_state = Inr ([0..<10], ?s0)"
    using generateSolarSystem_result [OF len, of "\<lambda>n. 0" initial_state]
    unfolding eight init by simp
  have shape: "system_shape ?s0 0 [1, 2] 3 9 [4, 5, 6, 7, 8]"
    using built_shape [OF len, of "\<lambda>n. 0" initial_state]
    unfolding eight init by (simp add: upt_conv_Cons numeral_2_eq_2)
  have root: "m_root ?s0 = Some 0"
    using built_root [of solar_catalog "\<lambda>n. 0" initial_state] unfolding init .
  have run: "update 3 10 ?s0 = Inr (advance_all 10 [0, 1, 2, 3, 9, 4, 5, 6, 7, 8] ?s0)"
    using update_run [OF shape root, of 0 10] by (simp add: numeral_3_eq_3)
  have mercury: "planet_heap ?s0 (Suc 0) =
      Some ((planet_node 0 0 1 (cat_Planets solar_catalog ! 0))\<lparr>children := []\<rparr>)"
    using built_planet [of 0 solar_catalog "\<lambda>n. 0" initial_state]
    unfolding eight init by simp
  have first: "cat_Planets solar_catalog ! 0 = Mercury"
    by (simp add: solar_catalog_def Planets_def)
  have par: "map_option parent (planet_heap (advance_all 10 [0, 1, 2, 3, 9, 4, 5, 6, 7, 8] ?s0) 1)
      = Some (Some 0)"
    using mercury
    by (simp add: advance_all_heap advance_node_def planet_node_def Planet_init_def)
  have ph: "map_option phase (planet_heap (advance_all 10 [0, 1, 2, 3, 9, 4, 5, 6, 7, 8] ?s0) 1)
      = Some (sqrt (1 / 88) * 10 * 10)"
    using mercury
    by (simp add: advance_all_heap first advance_node_def planet_node_def
        Planet_init_def Mercury_def scaleVelocity_def)
  have big: "\<not> sqrt (1 / 88) * 10 * 10 < 2 * pi"
    using sqrt_88 by simp
  show ?thesis
    by (intro conjI gen run par ph big)
qed

subsection \<open>Teardown\<close>

lemma release_all_heap:
  "planet_heap (release_all as s) a = (if a \<in> set as then None else planet_heap s a)"
  by (simp add: release_all_def)

lemma release_all_fields [simp]:
  "planet_next (release_all as s) = planet_next s"
  "shape_heap (release_all as s) = shape_heap s"
  "shape_next (release_all as s) = shape_next s"
  "m_root (release_all as s) = m_root s"
  "released (release_all as s) = released s @ as"
  by (simp_all add: release_all_def)

lemma release_all_append:
  "release_all ys (release_all xs s) = release_all (xs @ ys) s"
  by (rule state.equality) (auto simp: release_all_def fun_eq_iff)

lemma release_one:
  "planet_heap s a = Some pl \<Longrightarrow> delete_Planet a s = Inr (release_all [a] s)"
  unfolding delete_Planet_def
  by (simp, rule state.equality) (auto simp: release_all_def fun_eq_iff)

lemma leaf_under_release:
  "c \<notin> set as \<Longrightarrow> leaf_under (release_all as s) q c = leaf_under s q c"
  by (simp add: leaf_under_def release_all_heap)

lemma leaf_under_release':
  "leaf_under s q c \<Longrightarrow> c \<notin> set as \<Longrightarrow> leaf_under (release_all as s) q c"
  by (simp add: leaf_under_release)

lemma delete_leaves:
  "distinct cs \<Longrightarrow> \<forall>c \<in> set cs. leaf_under s q c \<Longrightarrow>
   deletePlanet_children (Suc k) s cs = Inr (release_all cs s)"
proof (induction cs arbitrary: s)
  case Nil
  show ?case by (simp add: release_all_def)
next
  case (Cons c cs)
  from Cons.prems obtain pl where pl: "planet_heap s c = Some pl" "children pl = []"
    by (auto simp: leaf_under_def)
  have one: "deletePlanet (Suc k) s c = Inr (release_all [c] s)"
    using pl by (simp add: release_one)
  have rest: "deletePlanet_children (Suc k) (release_all [c] s) cs =
      Inr (release_all cs (release_all [c] s))"
    using Cons.prems by (intro Cons.IH) (auto intro!: leaf_under_release')
  show ?case using one rest by (simp add: release_all_append)
qed

lemma delete_children_append:
  "deletePlanet_children k s xs = Inr s1 \<Longrightarrow> deletePlanet_children k s1 ys = Inr s2 \<Longrightarrow>
   deletePlanet_children k s (xs @ ys) = Inr s2"
  by (induction xs arbitrary: s) (auto split: sum.splits)

lemma delete_shape:
  assumes "system_shape s r L e mo R"
  shows "deletePlanet (Suc (Suc (Suc k))) s r = Inr (release_all (L @ [mo, e] @ R @ [r]) s)"
proof -
  note sh = system_shapeD [OF assms]
  from sh(2) obtain rl where rl: "planet_heap s r = Some rl" "children rl = L @ e # R" by blast
  from sh(5) obtain el where el: "planet_heap s e = Some el" "children el = [mo]" by blast
  let ?s1 = "release_all L s"
  let ?s2 = "release_all (L @ [mo]) s"
  let ?s3 = "release_all ((L @ [mo]) @ [e]) s"
  let ?s4 = "release_all (((L @ [mo]) @ [e]) @ R) s"
  let ?s5 = "release_all ((((L @ [mo]) @ [e]) @ R) @ [r]) s"
  have l: "deletePlanet_children (Suc (Suc k)) s L = Inr ?s1"
    using sh(1,3) by (intro delete_leaves [where q = r]) simp_all
  have e1: "planet_heap ?s1 e = Some el"
    using sh(1) el by (auto simp: release_all_heap)
  have m: "deletePlanet_children (Suc k) ?s1 [mo] = Inr ?s2"
    using sh(1,6)
    by (subst delete_leaves [where q = e]) (auto simp: release_all_append intro!: leaf_under_release')
  have e2: "planet_heap ?s2 e = Some el"
    using sh(1) el by (auto simp: release_all_heap)
  have e: "deletePlanet (Suc (Suc k)) ?s1 e = Inr ?s3"
    using e1 el(2) m release_one [OF e2] by (simp add: release_all_append)
  have r: "deletePlanet_children (Suc (Suc k)) ?s3 R = Inr ?s4"
    using sh(1,4)
    by (subst delete_leaves [where q = r]) (auto simp: release_all_append intro!: leaf_under_release')
  have er: "deletePlanet_children (Suc (Suc k)) ?s1 (e # R) = Inr ?s4"
    using e r by simp
  have all: "deletePlanet_children (Suc (Suc k)) s (L @ e # R) = Inr ?s4"
    using l er by (rule delete_children_append)
  have r4: "planet_heap ?s4 r = Some rl"
    using sh(1) rl by (auto simp: release_all_heap)
  have "deletePlanet (Suc (Suc (Suc k))) s r = Inr ?s5"
    using rl all release_one [OF r4] by (simp add: release_all_append)
  then show ?thesis by simp
qed

lemma released_before_last:
  assumes "c \<in> set xs"
  shows "released_before c a (xs @ [a])"
proof -
  from assms obtain ys zs where split: "xs = ys @ c # zs" "c \<notin> set ys"
    by (meson split_list_first)
  have "dropWhile (\<lambda>x. x \<noteq> c) (xs @ [a]) = c # zs @ [a]"
    unfolding split(1) using split(2) by (simp add: dropWhile_append)
  then show ?thesis by (simp add: released_before_def)
qed

lemma released_before_next:
  assumes "c \<notin> set xs"
  shows "released_before c a (xs @ c # a # ys)"
proof -
  have "dropWhile (\<lambda>x. x \<noteq> c) (xs @ c # a # ys) = c # a # ys"
    using assms by (simp add: dropWhile_append)
  then show ?thesis by (simp add: released_before_def)
qed

lemma destructor_run:
  assumes "system_shape s r L e mo R" and "m_root s = Some r"
  shows "PlanetarySystem_destructor (Suc (Suc (Suc k))) s =
           Inr (release_all (L @ [mo, e] @ R @ [r]) s)"
  unfolding PlanetarySystem_destructor_def using delete_shape [OF assms(1), of k]
  by (simp only: assms(2) option.case)

lemma shape_children_first:
  assumes "system_shape s r L e mo R" and "a \<in> set (r # L @ e # mo # R)"
  shows "\<exists>pl. planet_heap s a = Some pl \<and>
     (\<forall>c \<in> set (children pl). released_before c a (L @ [mo, e] @ R @ [r]))"
proof -
  note sh = system_shapeD [OF assms(1)]
  from sh(2) obtain rl where rl: "planet_heap s r = Some rl" "children rl = L @ e # R" by blast
  from sh(5) obtain el where el: "planet_heap s e = Some el" "children el = [mo]" by blast
  have leaf: "\<exists>pl. planet_heap s c = Some pl \<and>
     (\<forall>x \<in> set (children pl). released_before x c (L @ [mo, e] @ R @ [r]))"
    if "leaf_under s q c" for q c
    using that by (auto simp: leaf_under_def)
  from assms(2) consider "a = r" | "a \<in> set L" | "a = e" | "a = mo" | "a \<in> set R" by auto
  then show ?thesis
  proof cases
    case 1
    have "released_before c r ((L @ [mo, e] @ R) @ [r])" if "c \<in> set (L @ e # R)" for c
      using that by (intro released_before_last) auto
    then show ?thesis using rl 1 by simp
  next
    case 2 then show ?thesis using sh(3) leaf by blast
  next
    case 3
    have "released_before mo e (L @ mo # e # (R @ [r]))"
      using sh(1) by (intro released_before_next) simp
    then show ?thesis using el 3 by simp
  next
    case 4 then show ?thesis using sh(6) leaf by blast
  next
    case 5 then show ?thesis using sh(4) leaf by blast
  qed
qed

text \<open>
  Claim C9, as the code has it. Teardown of the built tree, right after the build or in any
  later state with the same structure (with fuel for the three levels), returns without
  error: nothing is released twice and nothing released is dereferenced. The log of
  released nodes grows by exactly the nodes of the tree, each once; none of them is live
  afterwards; and every child of a node is in the log before the node, so when a node is
  released all its children have been released already. This is the post-order of the
  source. It does not keep a node from being released while a live parent still lists it:
  the counterexample below shows that it is.
\<close>

theorem teardown_postorder:
  assumes "2 < length (cat_Planets cat)" and "3 \<le> fuel"
  shows "\<exists>data s' sun nodes.
     generateSolarSystem cat mt s = Inr (data, s') \<and> m_root s' = Some sun \<and>
     pre_order fuel s' sun = Inr nodes \<and>
     (\<forall>s2. same_structure s' s2 \<longrightarrow>
        (\<exists>s'' rlog.
           PlanetarySystem_destructor fuel s2 = Inr s'' \<and>
           released s'' = released s2 @ rlog \<and>
           distinct rlog \<and> set rlog = set nodes \<and> length rlog = length nodes \<and>
           (\<forall>a \<in> set nodes. planet_heap s'' a = None) \<and>
           (\<forall>a \<in> set nodes. \<exists>pl. planet_heap s2 a = Some pl \<and>
              (\<forall>c \<in> set (children pl). released_before c a rlog))))"
proof -
  let ?n = "planet_next s" and ?C = "length (cat_Planets cat)"
  let ?s' = "built_state cat mt s"
  let ?moon = "Suc (?n + ?C)"
  let ?L = "[Suc ?n, Suc (Suc ?n)]" and ?R = "[?n + 4 ..< Suc ?n + ?C]"
  let ?nodes = "?n # ?L @ (?n + 3) # ?moon # ?R"
  let ?rlog = "?L @ [?moon, ?n + 3] @ ?R @ [?n]"
  from assms(2) obtain k where k: "fuel = Suc (Suc (Suc k))" using fuel3 by blast
  have shape: "system_shape ?s' ?n ?L (?n + 3) ?moon ?R"
    using assms(1) by (rule built_shape)
  have root: "m_root ?s' = Some ?n" by (rule built_root)
  have pre: "pre_order fuel ?s' ?n = Inr ?nodes"
    unfolding k using shape by (rule pre_order_shape)
  have dist: "distinct ?rlog"
    using system_shapeD(1) [OF shape] by auto
  have same: "set ?rlog = set ?nodes" by auto
  have len: "length ?rlog = length ?nodes" by simp
  have later: "\<exists>s'' rlog.
           PlanetarySystem_destructor fuel s2 = Inr s'' \<and>
           released s'' = released s2 @ rlog \<and>
           distinct rlog \<and> set rlog = set ?nodes \<and> length rlog = length ?nodes \<and>
           (\<forall>a \<in> set ?nodes. planet_heap s'' a = None) \<and>
           (\<forall>a \<in> set ?nodes. \<exists>pl. planet_heap s2 a = Some pl \<and>
              (\<forall>c \<in> set (children pl). released_before c a rlog))"
    if st: "same_structure ?s' s2" for s2
  proof -
    let ?s'' = "release_all ?rlog s2"
    have shape2: "system_shape s2 ?n ?L (?n + 3) ?moon ?R"
      using st shape by (rule same_structure_shape)
    have root2: "m_root s2 = Some ?n"
      using st root by (rule same_structure_root)
    have run: "PlanetarySystem_destructor fuel s2 = Inr ?s''"
      unfolding k using shape2 root2 by (rule destructor_run)
    have logeq: "released ?s'' = released s2 @ ?rlog"
      by (simp only: release_all_fields)
    have gone: "\<forall>a \<in> set ?nodes. planet_heap ?s'' a = None"
      unfolding release_all_heap same by simp
    have order: "\<forall>a \<in> set ?nodes. \<exists>pl. planet_heap s2 a = Some pl \<and>
          (\<forall>c \<in> set (children pl). released_before c a ?rlog)"
      using shape_children_first [OF shape2] by blast
    show ?thesis
      using run logeq dist same len gone order by blast
  qed
  show ?thesis
    using generateSolarSystem_result [OF assms(1), of mt s] root pre later
    by blast
qed

theorem teardown_postorder_witness:
  "2 < length (cat_Planets solar_catalog) \<and> (3::nat) \<le> 3 \<and>
   (\<exists>data s' sun nodes s'' rlog.
     generateSolarSystem solar_catalog (\<lambda>n. 0) initial_state = Inr (data, s') \<and>
     m_root s' = Some sun \<and>
     pre_order 3 s' sun = Inr nodes \<and> same_structure s' s' \<and>
     PlanetarySystem_destructor 3 s' = Inr s'' \<and>
     released s'' = released s' @ rlog \<and>
     distinct rlog \<and> set rlog = set nodes \<and> length rlog = length nodes \<and>
     (\<forall>a \<in> set nodes. planet_heap s'' a = None) \<and>
     (\<forall>a \<in> set nodes. \<exists>pl. planet_heap s' a = Some pl \<and>
        (\<forall>c \<in> set (children pl). released_before c a rlog)))"
proof -
  have len: "2 < length (cat_Planets solar_catalog)"
    by (simp add: solar_catalog_def Planets_def)
  have fuel: "(3::nat) \<le> 3" by simp
  from teardown_postorder [OF len fuel, of "\<lambda>n. 0" initial_state]
  obtain data s' sun nodes where
    g: "generateSolarSystem solar_catalog (\<lambda>n. 0) initial_state = Inr (data, s')"
    and r: "m_root s' = Some sun" and p: "pre_order 3 s' sun = Inr nodes"
    and later: "\<forall>s2. same_structure s' s2 \<longrightarrow>
        (\<exists>s'' rlog.
           PlanetarySystem_destructor 3 s2 = Inr s'' \<and>
           released s'' = released s2 @ rlog \<and>
           distinct rlog \<and> set rlog = set nodes \<and> length rlog = length nodes \<and>
           (\<forall>a \<in> set nodes. planet_heap s'' a = None) \<and>
           (\<forall>a \<in> set nodes. \<exists>pl. planet_heap s2 a = Some pl \<and>
              (\<forall>c \<in> set (children pl). released_before c a rlog)))"
    by blast
  have same: "same_structure s' s'" by (rule same_structure_refl)
  from later [rule_format, OF same] obtain s'' rlog where
    d: "PlanetarySystem_destructor 3 s' = Inr s''" "released s'' = released s' @ rlog"
      "distinct rlog" "set rlog = set nodes" "length rlog = length nodes"
      "\<forall>a \<in> set nodes. planet_heap s'' a = None"
      "\<forall>a \<in> set nodes. \<exists>pl. planet_heap s' a = Some pl \<and>
        (\<forall>c \<in> set (children pl). released_before c a rlog)"
    by (elim exE conjE)
  show ?thesis
    by (intro conjI len fuel, rule exI [of _ data], rule exI [of _ s'], rule exI [of _ sun],
        rule exI [of _ nodes], rule exI [of _ s''], rule exI [of _ rlog])
      (intro conjI g r p same d)
qed

text \<open>
  Claim C9 as stated fails in its last clause. In the teardown of the tree built from the
  catalog of the source (root 0 with the children 1 to 8, the moon 9 under the node 3),
  the recursion releases 1 and 2, then descends into 3 and releases its child 9. In the
  state right after that, 9 is not live, while its parent 3 is live and still lists 9, and
  the root is live and still lists 3: the moon was freed while reachable from its live
  ancestors. The run goes on without dereferencing 9 and ends with the log
  \<open>1, 2, 9, 3, 4, 5, 6, 7, 8, 0\<close>.
\<close>

theorem freed_while_listed_counterexample:
  "generateSolarSystem solar_catalog (\<lambda>n. 0) initial_state =
     Inr ([0..<10], built_state solar_catalog (\<lambda>n. 0) initial_state) \<and>
   m_root (built_state solar_catalog (\<lambda>n. 0) initial_state) = Some 0 \<and>
   map_option children (planet_heap (built_state solar_catalog (\<lambda>n. 0) initial_state) 0)
     = Some [1, 2, 3, 4, 5, 6, 7, 8] \<and>
   deletePlanet_children 2 (built_state solar_catalog (\<lambda>n. 0) initial_state) [1, 2]
     = Inr (release_all [1, 2] (built_state solar_catalog (\<lambda>n. 0) initial_state)) \<and>
   map_option children
     (planet_heap (release_all [1, 2] (built_state solar_catalog (\<lambda>n. 0) initial_state)) 3)
     = Some [9] \<and>
   deletePlanet_children 1
     (release_all [1, 2] (built_state solar_catalog (\<lambda>n. 0) initial_state)) [9]
     = Inr (release_all [1, 2, 9] (built_state solar_catalog (\<lambda>n. 0) initial_state)) \<and>
   planet_heap (release_all [1, 2, 9] (built_state solar_catalog (\<lambda>n. 0) initial_state)) 9
     = None \<and>
   map_option children
     (planet_heap (release_all [1, 2, 9] (built_state solar_catalog (\<lambda>n. 0) initial_state)) 3)
     = Some [9] \<and>
   map_option children
     (planet_heap (release_all [1, 2, 9] (built_state solar_catalog (\<lambda>n. 0) initial_state)) 0)
     = Some [1, 2, 3, 4, 5, 6, 7, 8] \<and>
   PlanetarySystem_destructor 3 (built_state solar_catalog (\<lambda>n. 0) initial_state)
     = Inr (release_all [1, 2, 9, 3, 4, 5, 6, 7, 8, 0]
              (built_state solar_catalog (\<lambda>n. 0) initial_state))"
proof -
  let ?s0 = "built_state solar_catalog (\<lambda>n. 0) initial_state"
  let ?s1 = "release_all [1, 2] ?s0"
  have eight: "length (cat_Planets solar_catalog) = 8"
    by (simp add: solar_catalog_def Planets_def)
  have len: "2 < length (cat_Planets solar_catalog)" unfolding eight by simp
  have init: "planet_next initial_state = 0" "shape_next initial_state = 0"
    by (simp_all add: initial_state_def)
  have gen: "generateSolarSystem solar_catalog (\<lambda>n. 0) initial_state = Inr ([0..<10], ?s0)"
    using generateSolarSystem_result [OF len, of "\<lambda>n. 0" initial_state]
    unfolding eight init by simp
  have shape: "system_shape ?s0 0 [1, 2] 3 9 [4, 5, 6, 7, 8]"
    using built_shape [OF len, of "\<lambda>n. 0" initial_state]
    unfolding eight init by (simp add: upt_conv_Cons numeral_2_eq_2)
  note sh = system_shapeD [OF shape]
  have root: "m_root ?s0 = Some 0"
    using built_root [of solar_catalog "\<lambda>n. 0" initial_state] unfolding init .
  have kids0: "map_option children (planet_heap ?s0 0) = Some [1, 2, 3, 4, 5, 6, 7, 8]"
    using sh(2) by auto
  have kids3: "map_option children (planet_heap ?s0 3) = Some [9]"
    using sh(5) by auto
  have first: "deletePlanet_children (Suc (Suc 0)) ?s0 [1, 2] = Inr ?s1"
    using sh(3) by (intro delete_leaves [where q = 0]) simp_all
  have first': "deletePlanet_children 2 ?s0 [1, 2] = Inr ?s1"
    using first by (simp only: numeral_2_eq_2)
  have host: "map_option children (planet_heap ?s1 3) = Some [9]"
    using kids3 by (simp add: release_all_heap)
  have moon_leaf: "leaf_under ?s1 3 9"
    using sh(6) by (intro leaf_under_release') simp_all
  have moon: "deletePlanet_children (Suc 0) ?s1 [9] = Inr (release_all [9] ?s1)"
    using moon_leaf by (intro delete_leaves [where q = 3]) simp_all
  have join: "release_all [9] ?s1 = release_all [1, 2, 9] ?s0"
    by (simp add: release_all_append)
  have moon': "deletePlanet_children 1 ?s1 [9] = Inr (release_all [1, 2, 9] ?s0)"
    using moon unfolding join by simp
  have gone: "planet_heap (release_all [1, 2, 9] ?s0) 9 = None"
    by (simp add: release_all_heap)
  have host': "map_option children (planet_heap (release_all [1, 2, 9] ?s0) 3) = Some [9]"
    using kids3 by (simp add: release_all_heap)
  have root': "map_option children (planet_heap (release_all [1, 2, 9] ?s0) 0)
      = Some [1, 2, 3, 4, 5, 6, 7, 8]"
    using kids0 by (simp add: release_all_heap)
  have run: "PlanetarySystem_destructor 3 ?s0
      = Inr (release_all [1, 2, 9, 3, 4, 5, 6, 7, 8, 0] ?s0)"
    using destructor_run [OF shape root, of 0] by (simp add: numeral_3_eq_3)
  show ?thesis
    by (intro conjI gen root kids0 first' host moon' gone host' root' run)
qed

subsection \<open>Teardown before the build\<close>

text \<open>
  Claim C10. When the build was never invoked the root is null, and the destructor then
  does nothing: it returns the state it was given, whatever the fuel, so no node is
  released and nothing is dereferenced.
\<close>

theorem destructor_before_build:
  "m_root s = None \<Longrightarrow> PlanetarySystem_destructor fuel s = Inr s"
  by (simp add: PlanetarySystem_destructor_def)

theorem destructor_before_build_witness:
  "m_root initial_state = None \<and>
   PlanetarySystem_destructor 0 initial_state = Inr initial_state \<and>
   released initial_state = []"
  using destructor_before_build [of initial_state 0] by (simp add: initial_state_def)

end
